theory Spec2Isabelle
  imports Complex_Main "HOL-Library.Word"
begin

unbundle bit_operations_syntax

section \<open>JavaScript numbers and values\<close>

text \<open>
  A JavaScript number is an IEEE-754 double: a finite value, \<open>NaN\<close> or one of the two
  infinities. Every finite double is a rational, so finite values are modelled as \<open>rat\<close>.
  \<open>Math.floor\<close>, \<open>Math.max\<close>, \<open>%\<close> on integers and the comparisons are exact on
  doubles and are modelled exactly. A division, a multiplication and the conversion of a
  decimal numeral return the double nearest to the exact result; they are modelled with
  \<open>round_double\<close> below. The sign of zero is not modelled: no function below distinguishes
  \<open>-0\<close> from \<open>+0\<close>.
\<close>

datatype jsnum = NaN | PosInf | NegInf | Fin rat

text \<open>
  The values the functions below receive: \<open>undefined\<close>, \<open>null\<close>, booleans, numbers and
  strings.
\<close>

datatype jsval = JUndefined | JNull | JBool bool | JNum jsnum | JStr string

text \<open>
  \<open>Number(x)\<close>. The conversion of a string to a number is a built-in of the language and
  not code of the program; it is the parameter \<open>str2num\<close>.
\<close>

fun ToNumber :: "(string \<Rightarrow> jsnum) \<Rightarrow> jsval \<Rightarrow> jsnum" where
  "ToNumber str2num JUndefined = NaN"
| "ToNumber str2num JNull = Fin 0"
| "ToNumber str2num (JBool b) = (if b then Fin 1 else Fin 0)"
| "ToNumber str2num (JNum n) = n"
| "ToNumber str2num (JStr s) = str2num s"

text \<open>\<open>x || 0\<close> on a number: \<open>NaN\<close> and zero are falsy, every other number is kept.\<close>

fun or_zero :: "jsnum \<Rightarrow> jsnum" where
  "or_zero NaN = Fin 0"
| "or_zero (Fin q) = (if q = 0 then Fin 0 else Fin q)"
| "or_zero PosInf = PosInf"
| "or_zero NegInf = NegInf"

fun Math_floor :: "jsnum \<Rightarrow> jsnum" where
  "Math_floor (Fin q) = Fin (of_int \<lfloor>q\<rfloor>)"
| "Math_floor n = n"

fun Math_max :: "jsnum \<Rightarrow> jsnum \<Rightarrow> jsnum" where
  "Math_max NaN b = NaN"
| "Math_max a NaN = NaN"
| "Math_max PosInf b = PosInf"
| "Math_max a PosInf = PosInf"
| "Math_max NegInf b = b"
| "Math_max a NegInf = a"
| "Math_max (Fin a) (Fin b) = Fin (max a b)"

text \<open>\<open>Number.isInteger\<close> together with \<open>x >= 0\<close>: a non-negative integer.\<close>

fun nonneg_integer :: "jsnum \<Rightarrow> bool" where
  "nonneg_integer (Fin q) = (0 \<le> q \<and> q = of_int \<lfloor>q\<rfloor>)"
| "nonneg_integer n = False"

text \<open>
  Rounding to the nearest double. A double other than zero is \<open>m * 2^e\<close> with an integer
  mantissa \<open>2^52 \<le> m < 2^53\<close>. \<open>rne\<close> rounds a rational to the nearest integer, a tie to
  the even one. \<open>bit_length n\<close> is the number of binary digits of a positive integer, and
  \<open>ilog2 q\<close> the integer \<open>t\<close> with \<open>2^t \<le> q < 2^(t+1)\<close> for a positive rational \<open>q\<close>.
  \<open>round_double q\<close> scales \<open>q\<close> so that it lies between \<open>2^52\<close> and \<open>2^53\<close>, rounds it to
  an integer mantissa and scales back. This is the IEEE-754 rounding (to nearest, ties to
  even) of every \<open>q\<close> whose magnitude is in the range of normal doubles, from \<open>2^-1022\<close>
  to \<open>2^1024\<close>; no computation below leaves this range.
\<close>

definition rne :: "rat \<Rightarrow> int" where
  "rne r = (let f = \<lfloor>r\<rfloor>; d = r - of_int f
            in if d < 1 / 2 then f else if 1 / 2 < d then f + 1
               else if even f then f else f + 1)"

function bit_length :: "int \<Rightarrow> nat" where
  "bit_length n = (if n \<le> 0 then 0 else Suc (bit_length (n div 2)))"
  by pat_completeness auto
termination by (relation "measure nat") auto

declare bit_length.simps [simp del]

definition ilog2 :: "rat \<Rightarrow> int" where
  "ilog2 q = (if 1 \<le> q then int (bit_length \<lfloor>q\<rfloor>) - 1
              else - int (bit_length (\<lceil>1 / q\<rceil> - 1)))"

definition round_double :: "rat \<Rightarrow> rat" where
  "round_double q =
     (if q = 0 then 0
      else let e = ilog2 \<bar>q\<bar> - 52
           in sgn q *
              (if 0 \<le> e then of_int (rne (\<bar>q\<bar> / 2 ^ nat e)) * 2 ^ nat e
               else of_int (rne (\<bar>q\<bar> * 2 ^ nat (- e))) / 2 ^ nat (- e)))"

section \<open>Time formatting\<close>

text \<open>
  \<open>String(n)\<close> for a non-negative integer \<open>n\<close> (below \<open>10^21\<close>, where JavaScript switches to
  exponent notation): the decimal digits, most significant first, no leading zero.
\<close>

definition digit_char :: "nat \<Rightarrow> char" where
  "digit_char d = ''0123456789'' ! d"

fun String_nat :: "nat \<Rightarrow> string" where
  "String_nat n = (if n < 10 then [digit_char n] else String_nat (n div 10) @ [digit_char (n mod 10)])"



section \<open>Outcomes of a run\<close>

text \<open>
  An exception of the source is a value. \<open>TypeError\<close> is the dereference of a missing
  synthesizer (\<open>this._synth\<close> is \<open>null\<close>), \<open>EngineFailure\<close> a call of the engine that throws
  or a promise of the engine that rejects, \<open>ReadFailure\<close> a file whose bytes cannot be read,
  \<open>NotReady\<close> a wait for an adapter whose initialisation has not finished.
\<close>

datatype exn = TypeError | RangeError | EngineFailure | ReadFailure | NotReady

text \<open>
  A run either returns, or it is aborted by an exception; in both cases the state it has
  reached is kept, since the effects made before a throw stay.
\<close>

datatype 'a outcome = Returned 'a | Aborted exn 'a

fun and_then :: "'a outcome \<Rightarrow> ('a \<Rightarrow> 'a outcome) \<Rightarrow> 'a outcome" where
  "and_then (Returned s) f = f s"
| "and_then (Aborted x s) f = Aborted x s"

fun state_of :: "'a outcome \<Rightarrow> 'a" where
  "state_of (Returned s) = s"
| "state_of (Aborted x s) = s"

fun returned :: "'a outcome \<Rightarrow> bool" where
  "returned (Returned s) = True"
| "returned (Aborted x s) = False"

section \<open>The engine and the audio graph\<close>

type_synonym bytes = "8 word list"

text \<open>
  The commands the program sends to the synthesis engine (\<open>this._synth\<close>), to the audio
  graph and to the browser's timers, in the order it sends them.
\<close>

datatype cmd =
    SeekPlayer jsnum
  | PlayPlayer
  | StopPlayer
  | ResetPlayer
  | AddSMFData bytes
  | CtxResume
  | CtxSuspend
  | NodeConnect
  | NodeDisconnect
  | TickConnect
  | TickDisconnect
  | SetTimeout nat
  | ClearTimeout
  | Alert

text \<open>
  What the engine answers during one operation. A query answers \<open>None\<close> when it throws
  or its promise rejects; \<open>addSMFDataToPlayer\<close> and \<open>resetPlayer\<close> say whether the call
  succeeds.
\<close>

record engine =
  retrievePlayerCurrentTick :: "int option"
  retrievePlayerTotalTicks :: "int option"
  retrievePlayerMIDITempo :: "int option"
  isPlayerPlaying :: bool
  addSMFDataToPlayer :: bool
  resetPlayer :: bool

section \<open>The adapter: class JSSynthPlayer\<close>

text \<open>
  The fields of the adapter the functions below read or write. \<open>synth\<close> says that \<open>_init\<close>
  has created the synthesizer and its audio node (\<open>_synth\<close> and \<open>_node\<close> are set together);
  \<open>tickNode\<close> that the heartbeat node and its gain exist.
\<close>

record JSSynthPlayer =
  synth :: bool
  tickNode :: bool
  nodeConnected :: bool
  tickConnected :: bool
  currentTime :: rat
  playing :: bool
  lastSmfBytes :: "bytes option"

type_synonym step = "JSSynthPlayer \<Rightarrow> JSSynthPlayer \<times> cmd list"

definition seq :: "step \<Rightarrow> step \<Rightarrow> step" where
  "seq m1 m2 ad = (case m1 ad of (a1, c1) \<Rightarrow> (case m2 a1 of (a2, c2) \<Rightarrow> (a2, c1 @ c2)))"

text \<open>
  \<^verbatim>\<open>
  seek(ticks){
    if (!this._synth) return;
    const t = Math.max(0, Math.floor(Number(ticks) || 0));
    this._synth.seekPlayer(t);
    if (t === 0) this._currentTime = 0;
  }
  \<close>
\<close>

definition seek_tick :: "(string \<Rightarrow> jsnum) \<Rightarrow> jsval \<Rightarrow> jsnum" where
  "seek_tick str2num ticks = Math_max (Fin 0) (Math_floor (or_zero (ToNumber str2num ticks)))"

definition seek :: "(string \<Rightarrow> jsnum) \<Rightarrow> jsval \<Rightarrow> step" where
  "seek str2num ticks ad =
     (if \<not> synth ad then (ad, [])
      else let t = seek_tick str2num ticks
           in (if t = Fin 0 then ad\<lparr>currentTime := 0\<rparr> else ad, [SeekPlayer t]))"

text \<open>
  \<^verbatim>\<open>
  play(){ this._audioContext.resume(); this._synth.playPlayer(); this._playing = true; }
  pause(){ this._synth.stopPlayer(); this._playing = false; }
  \<close>
\<close>

definition play :: "JSSynthPlayer \<Rightarrow> (JSSynthPlayer \<times> cmd list) outcome" where
  "play ad =
     (if synth ad then Returned (ad\<lparr>playing := True\<rparr>, [CtxResume, PlayPlayer])
      else Aborted TypeError (ad, [CtxResume]))"

definition pause :: "JSSynthPlayer \<Rightarrow> (JSSynthPlayer \<times> cmd list) outcome" where
  "pause ad =
     (if synth ad then Returned (ad\<lparr>playing := False\<rparr>, [StopPlayer])
      else Aborted TypeError (ad, []))"

text \<open>
  \<^verbatim>\<open>
  async loadMIDI(SMFbytes){
    try {
      await this._waitForReady();
      this._lastSmfBytes = SMFbytes.slice();
      await this._safeSynthCall(this._synth?.stopPlayer);
      await this._safeSynthCall(this._synth?.resetPlayer);
      await this._synth.addSMFDataToPlayer(SMFbytes);
      this._currentTime = 0;
    } catch (error) { ...; throw error; }
  }
  \<close>
  \<open>_waitForReady\<close> polls until \<open>_init\<close> has finished; on an adapter that is not
  initialised the call does not go on (\<open>NotReady\<close>). The two guarded calls swallow a
  failure of the engine.
\<close>

definition loadMIDI :: "engine \<Rightarrow> bytes \<Rightarrow> JSSynthPlayer \<Rightarrow> (JSSynthPlayer \<times> cmd list) outcome" where
  "loadMIDI e SMFbytes ad =
     (if \<not> synth ad then Aborted NotReady (ad, [])
      else let a1 = ad\<lparr>lastSmfBytes := Some SMFbytes\<rparr>;
               cs = [StopPlayer, ResetPlayer, AddSMFData SMFbytes]
           in if addSMFDataToPlayer e then Returned (a1\<lparr>currentTime := 0\<rparr>, cs)
              else Aborted EngineFailure (a1, cs))"

text \<open>
  The three getters, as \<open>synthesizer-player.js\<close> has them:
  \<^verbatim>\<open>
  async getTotalTicks(){ try { return await this._synth.retrievePlayerTotalTicks(); } catch(_) { return 0; } }
  async getCurrentTick(){ try { return await this._synth.retrievePlayerCurrentTick(); } catch(_) { return 0; } }
  async getMidiTempoUsPerQuarter(){ try { return await this._synth.retrievePlayerMIDITempo(); } catch(_) { return 500000; } }
  \<close>
  \<open>synth_query\<close> is the awaited call \<open>this._synth.m()\<close>: a \<open>TypeError\<close> without a
  synthesizer, the failure of the engine when the query fails, its value otherwise.
\<close>

definition synth_query :: "JSSynthPlayer \<Rightarrow> int option \<Rightarrow> exn + int" where
  "synth_query ad reply =
     (if \<not> synth ad then Inl TypeError
      else case reply of None \<Rightarrow> Inl EngineFailure | Some v \<Rightarrow> Inr v)"

definition try_catch :: "exn + 'a \<Rightarrow> (exn \<Rightarrow> exn + 'a) \<Rightarrow> exn + 'a" where
  "try_catch body handler = (case body of Inl x \<Rightarrow> handler x | Inr v \<Rightarrow> Inr v)"

definition getTotalTicks :: "JSSynthPlayer \<Rightarrow> engine \<Rightarrow> exn + int" where
  "getTotalTicks ad e = try_catch (synth_query ad (retrievePlayerTotalTicks e)) (\<lambda>_. Inr 0)"

definition getCurrentTick :: "JSSynthPlayer \<Rightarrow> engine \<Rightarrow> exn + int" where
  "getCurrentTick ad e = try_catch (synth_query ad (retrievePlayerCurrentTick e)) (\<lambda>_. Inr 0)"

definition getMidiTempoUsPerQuarter :: "JSSynthPlayer \<Rightarrow> engine \<Rightarrow> exn + int" where
  "getMidiTempoUsPerQuarter ad e =
     try_catch (synth_query ad (retrievePlayerMIDITempo e)) (\<lambda>_. Inr 500000)"

text \<open>
  The power controls of the adapter that has \<open>setAudioState\<close>. Connecting and
  disconnecting a node of the audio graph is taken to succeed. \<open>setIdle(true)\<close> asks for
  the suspension of the audio context after the drain delay; \<open>CtxSuspend\<close> is that request.
  \<^verbatim>\<open>
  setMainNodeEnabled(enabled){
    if (!this._node) return;
    if (enabled && !this._nodeConnected) { this._node.connect(this._gain); this._nodeConnected = true; }
    else if (!enabled && this._nodeConnected) { this._node.disconnect(); this._nodeConnected = false; }
  }
  setHeartbeatEnabled(enabled){
    if (!this._tickNode || !this._tickGain) return;
    if (enabled && !this._tickConnected) { ...connect...; this._tickConnected = true; }
    else if (!enabled && this._tickConnected) { ...disconnect...; this._tickConnected = false; }
  }
  async setIdle(idle){ if (idle) { setTimeout(() => this._audioContext.suspend(), drainDelayMs); }
                       else { await this._audioContext.resume(); } }
  \<close>
\<close>

definition setMainNodeEnabled :: "bool \<Rightarrow> step" where
  "setMainNodeEnabled enabled ad =
     (if \<not> synth ad then (ad, [])
      else if enabled \<and> \<not> nodeConnected ad then (ad\<lparr>nodeConnected := True\<rparr>, [NodeConnect])
      else if \<not> enabled \<and> nodeConnected ad then (ad\<lparr>nodeConnected := False\<rparr>, [NodeDisconnect])
      else (ad, []))"

definition setHeartbeatEnabled :: "bool \<Rightarrow> step" where
  "setHeartbeatEnabled enabled ad =
     (if \<not> tickNode ad then (ad, [])
      else if enabled \<and> \<not> tickConnected ad then (ad\<lparr>tickConnected := True\<rparr>, [TickConnect])
      else if \<not> enabled \<and> tickConnected ad then (ad\<lparr>tickConnected := False\<rparr>, [TickDisconnect])
      else (ad, []))"

definition setIdle :: "bool \<Rightarrow> step" where
  "setIdle idle ad = (ad, if idle then [CtxSuspend] else [CtxResume])"

text \<open>
  \<^verbatim>\<open>
  setAudioState(state) {
    const states = {
      playing:  () => { this.setIdle(false); this.setMainNodeEnabled(true); this.setHeartbeatEnabled(true); },
      paused:   () => { this.setHeartbeatEnabled(false); },
      stopped:  () => { this.setHeartbeatEnabled(false); this.setMainNodeEnabled(false); this.setIdle(true); },
      lowPower: () => { this.setHeartbeatEnabled(false); this.setMainNodeEnabled(false); this.setIdle(true); },
      wakeUp:   () => { this.setIdle(false); this.setMainNodeEnabled(true); }
    };
    if (states[state]) states[state]();
  }
  \<close>
\<close>

datatype AUDIO_STATE = playing_state | paused_state | stopped_state | lowPower | wakeUp

fun setAudioState :: "AUDIO_STATE \<Rightarrow> step" where
  "setAudioState playing_state =
     seq (setIdle False) (seq (setMainNodeEnabled True) (setHeartbeatEnabled True))"
| "setAudioState paused_state = setHeartbeatEnabled False"
| "setAudioState stopped_state =
     seq (setHeartbeatEnabled False) (seq (setMainNodeEnabled False) (setIdle True))"
| "setAudioState lowPower =
     seq (setHeartbeatEnabled False) (seq (setMainNodeEnabled False) (setIdle True))"
| "setAudioState wakeUp = seq (setIdle False) (setMainNodeEnabled True)"

section \<open>Timing state\<close>

abbreviation DEFAULT_TEMPO_US_PER_QUARTER :: int where
  "DEFAULT_TEMPO_US_PER_QUARTER \<equiv> 500000"

abbreviation DEFAULT_PPQ :: int where
  "DEFAULT_PPQ \<equiv> 480"

abbreviation PAUSE_LOW_POWER_MS :: nat where
  "PAUSE_LOW_POWER_MS \<equiv> 30000"

abbreviation SEEK_SLIDER_MAX :: rat where
  "SEEK_SLIDER_MAX \<equiv> 1000"

text \<open>
  \<open>class TimingState\<close>. Ticks, tempo and resolution are the integers the engine and the
  file header give. The field \<open>secPerTick\<close> is a quotient of doubles that only the
  display reads; it is left out.
\<close>

record TimingState =
  currentTick :: int
  totalTicks :: int
  tempoUsPerQuarter :: int
  ppq :: int

definition reset :: "TimingState \<Rightarrow> TimingState" where
  "reset ts = ts\<lparr>currentTick := 0, totalTicks := 0,
                 tempoUsPerQuarter := DEFAULT_TEMPO_US_PER_QUARTER, ppq := DEFAULT_PPQ\<rparr>"

text \<open>
  \<^verbatim>\<open>
  updateFromSynth(totalTicks, tempoUsPerQuarter, ppq = this.ppq) {
    if (typeof totalTicks === 'number' && totalTicks > 0) this.totalTicks = totalTicks;
    if (typeof tempoUsPerQuarter === 'number' && tempoUsPerQuarter > 0) this.tempoUsPerQuarter = tempoUsPerQuarter;
    if (typeof ppq === 'number' && ppq > 0) this.ppq = ppq;
    this.setSecPerTick();
  }
  \<close>
  Every caller leaves \<open>ppq\<close> to its default \<open>this.ppq\<close>, which the third line writes back
  unchanged. An argument is \<open>None\<close> when it is \<open>null\<close>.
\<close>

definition updateFromSynth :: "int option \<Rightarrow> int option \<Rightarrow> TimingState \<Rightarrow> TimingState" where
  "updateFromSynth newTotal newTempo ts =
     (let t1 = (case newTotal of Some v \<Rightarrow> if v > 0 then ts\<lparr>totalTicks := v\<rparr> else ts | None \<Rightarrow> ts)
      in (case newTempo of Some v \<Rightarrow> if v > 0 then t1\<lparr>tempoUsPerQuarter := v\<rparr> else t1 | None \<Rightarrow> t1))"

text \<open>
  \<^verbatim>\<open>
  clampTick() { this.currentTick = Math.max(0, Math.min(this.currentTick, this.totalTicks)); }
  \<close>
  The method is declared by the class; no function of the program calls it.
\<close>

definition clampTick :: "TimingState \<Rightarrow> TimingState" where
  "clampTick ts = ts\<lparr>currentTick := max 0 (min (currentTick ts) (totalTicks ts))\<rparr>"

section \<open>The resolution field of the file header\<close>

text \<open>
  \<open>DataView.getUint32(off, false)\<close> and \<open>DataView.getInt16(off, false)\<close>: big-endian
  reads, the second in two's complement; a \<open>RangeError\<close> when the read passes the end
  of the buffer.
\<close>

definition getUint32 :: "bytes \<Rightarrow> nat \<Rightarrow> exn + int" where
  "getUint32 buf off =
     (if off + 4 \<le> length buf
      then Inr (((uint (buf ! off) * 256 + uint (buf ! (off + 1))) * 256
                   + uint (buf ! (off + 2))) * 256 + uint (buf ! (off + 3)))
      else Inl RangeError)"

definition getInt16 :: "bytes \<Rightarrow> nat \<Rightarrow> exn + int" where
  "getInt16 buf off =
     (if off + 2 \<le> length buf
      then (let u = uint (buf ! off) * 256 + uint (buf ! (off + 1))
            in Inr (if u \<ge> 32768 then u - 65536 else u))
      else Inl RangeError)"

text \<open>
  \<^verbatim>\<open>
  function parsePpqFromSmfHeader(arrayBuffer) {
    try {
      const dv = new DataView(arrayBuffer);
      if (dv.getUint32(0, false) === 0x4D546864 /* 'MThd' */) {
        const div = dv.getInt16(12, false);
        if ((div & 0x8000) === 0) {
          if (div > 0) { timing.ppq = div; }
          else { ...; timing.ppq = DEFAULT_PPQ; }
          timing.setSecPerTick();
        } else { /* SMPTE format: not supported, use default PPQ */ }
      } else { /* Not a valid SMF file */ }
    } catch (error) { ... }
  }
  \<close>
  \<open>div & 0x8000\<close> is the bitwise conjunction of the 32-bit two's complement values, which
  for a 16-bit signed \<open>div\<close> is the conjunction on \<open>int\<close>.
\<close>

definition parsePpqFromSmfHeader :: "bytes \<Rightarrow> TimingState \<Rightarrow> TimingState" where
  "parsePpqFromSmfHeader arrayBuffer ts =
     (case getUint32 arrayBuffer 0 of
        Inl x \<Rightarrow> ts
      | Inr magic \<Rightarrow>
          if magic = 0x4D546864
          then (case getInt16 arrayBuffer 12 of
                  Inl x \<Rightarrow> ts
                | Inr division \<Rightarrow>
                    if division AND 0x8000 = 0
                    then (if division > 0 then ts\<lparr>ppq := division\<rparr> else ts\<lparr>ppq := DEFAULT_PPQ\<rparr>)
                    else ts)
          else ts)"

section \<open>The transport controller\<close>

text \<open>
  A playlist entry: its name and the bytes of its file, \<open>None\<close> when reading the file
  fails. (The entry caches the bytes once read; a file's bytes do not change.)
\<close>

record track =
  name :: string
  fileBytes :: "bytes option"

text \<open>
  The module's state. \<open>player\<close> is the adapter \<open>ensurePlayer\<close> has created; \<open>loopToggle\<close>
  says that the loop checkbox exists and is checked; \<open>rafId\<close> that a frame of the display
  loop is requested; \<open>pauseLowPowerTimer\<close> that the variable holds a timer's id, and
  \<open>timerPending\<close> that this timer has neither fired nor been cleared; \<open>issued\<close> lists the
  commands sent so far, oldest first.
\<close>

record app =
  player :: JSSynthPlayer
  playlist :: "track list"
  currentIndex :: int
  isPlaying :: bool
  autoplay :: bool
  loopToggle :: bool
  timing :: TimingState
  rafId :: bool
  suppressFirstSynthRead :: bool
  pauseLowPowerTimer :: bool
  timerPending :: bool
  issued :: "cmd list"

definition call :: "step \<Rightarrow> app \<Rightarrow> app" where
  "call m st = (case m (player st) of (ad, cs) \<Rightarrow> st\<lparr>player := ad, issued := issued st @ cs\<rparr>)"

definition call_partial ::
  "(JSSynthPlayer \<Rightarrow> (JSSynthPlayer \<times> cmd list) outcome) \<Rightarrow> app \<Rightarrow> app outcome" where
  "call_partial m st =
     (case m (player st) of
        Returned (ad, cs) \<Rightarrow> Returned (st\<lparr>player := ad, issued := issued st @ cs\<rparr>)
      | Aborted x (ad, cs) \<Rightarrow> Aborted x (st\<lparr>player := ad, issued := issued st @ cs\<rparr>))"

definition emit :: "cmd \<Rightarrow> app \<Rightarrow> app" where
  "emit c st = st\<lparr>issued := issued st @ [c]\<rparr>"

definition on_timing :: "(TimingState \<Rightarrow> TimingState) \<Rightarrow> app \<Rightarrow> app" where
  "on_timing f st = st\<lparr>timing := f (timing st)\<rparr>"

text \<open>\<open>player.seek(t)\<close> with a tick of the timing state, an integer.\<close>

definition player_seek :: "int \<Rightarrow> app \<Rightarrow> app" where
  "player_seek t = call (seek (\<lambda>s. NaN) (JNum (Fin (of_int t))))"

definition getTrackCount :: "app \<Rightarrow> int" where
  "getTrackCount st = int (length (playlist st))"

text \<open>The remainder \<open>a % b\<close> of JavaScript takes the sign of \<open>a\<close>.\<close>

definition js_rem :: "int \<Rightarrow> int \<Rightarrow> int" where
  "js_rem a b = (if a \<ge> 0 then a mod \<bar>b\<bar> else - ((- a) mod \<bar>b\<bar>))"

text \<open>
  \<^verbatim>\<open>
  function getNextIndexForPlayer() {
    const len = getTrackCount();
    if (len === 0) return null;
    if (hasSingleTrack()) return null; // handled by onEnded branch
    const loopOn = !!(loopToggle && loopToggle.checked);
    if (loopOn) return (currentIndex + 1) % len;
    if (autoplay) return currentIndex < len - 1 ? currentIndex + 1 : null;
    return null;
  }
  function getNextIndexForButton() { const len = getTrackCount(); return len === 0 ? -1 : (currentIndex + 1) % len; }
  function getPrevIndexForButton() { const len = getTrackCount(); return len === 0 ? -1 : (currentIndex - 1 + len) % len; }
  \<close>
\<close>

definition getNextIndexForPlayer :: "app \<Rightarrow> int option" where
  "getNextIndexForPlayer st =
     (let len = getTrackCount st in
      if len = 0 then None
      else if len = 1 then None
      else if loopToggle st then Some (js_rem (currentIndex st + 1) len)
      else if autoplay st then (if currentIndex st < len - 1 then Some (currentIndex st + 1) else None)
      else None)"

definition getNextIndexForButton :: "app \<Rightarrow> int" where
  "getNextIndexForButton st =
     (let len = getTrackCount st in if len = 0 then - 1 else js_rem (currentIndex st + 1) len)"

definition getPrevIndexForButton :: "app \<Rightarrow> int" where
  "getPrevIndexForButton st =
     (let len = getTrackCount st in if len = 0 then - 1 else js_rem (currentIndex st - 1 + len) len)"

text \<open>
  \<open>safeSynthCall(player._synth?.m)\<close>: the value of the query, \<open>null\<close> (here \<open>None\<close>) when
  there is no synthesizer or the query fails.
\<close>

definition safeSynthCall :: "app \<Rightarrow> int option \<Rightarrow> int option" where
  "safeSynthCall st reply = (if synth (player st) then reply else None)"

text \<open>\<open>if (tick !== null) timing.currentTick = tick;\<close>\<close>

definition store_tick :: "int option \<Rightarrow> app \<Rightarrow> app" where
  "store_tick tick st =
     (case tick of None \<Rightarrow> st | Some t \<Rightarrow> on_timing (\<lambda>ts. ts\<lparr>currentTick := t\<rparr>) st)"

text \<open>
  \<^verbatim>\<open>
  async function updateTimeline() {
    if (!player) return;
    const oldTick = timing.currentTick;
    if (isPlaying) {
      if (suppressFirstSynthRead) { suppressFirstSynthRead = false; }
      else {
        const tick = await safeSynthCall(player._synth?.retrievePlayerCurrentTick);
        if (tick !== null) timing.currentTick = tick;
      }
    }
    if (timing.totalTicks === 0) {
      const totalTicks = await safeSynthCall(player._synth?.retrievePlayerTotalTicks);
      const tempoUsPerQuarter = await safeSynthCall(player._synth?.retrievePlayerMIDITempo);
      timing.updateFromSynth(totalTicks, tempoUsPerQuarter);
    }
    ... // the labels and the slider of the display
  }
  \<close>
  The function is cut at its first \<open>await\<close>: \<open>updateTimeline_begin\<close> runs up to it and says
  whether the query of the current tick has been sent; \<open>updateTimeline_resume\<close> is what
  runs once the answer \<open>tick\<close> has arrived. \<open>updateTimeline\<close> is the two with nothing in
  between.
\<close>

definition updateTimeline_begin :: "app \<Rightarrow> app \<times> bool" where
  "updateTimeline_begin st =
     (if isPlaying st
      then (if suppressFirstSynthRead st then (st\<lparr>suppressFirstSynthRead := False\<rparr>, False)
            else (st, True))
      else (st, False))"

definition updateTimeline_totals :: "engine \<Rightarrow> app \<Rightarrow> app" where
  "updateTimeline_totals e st =
     (if totalTicks (timing st) = 0
      then on_timing (updateFromSynth (safeSynthCall st (retrievePlayerTotalTicks e))
                                      (safeSynthCall st (retrievePlayerMIDITempo e))) st
      else st)"

definition updateTimeline_resume :: "int option \<Rightarrow> engine \<Rightarrow> app \<Rightarrow> app" where
  "updateTimeline_resume tick e st = updateTimeline_totals e (store_tick tick st)"

definition updateTimeline :: "engine \<Rightarrow> app \<Rightarrow> app" where
  "updateTimeline e st =
     (case updateTimeline_begin st of
        (s1, asked) \<Rightarrow>
          if asked then updateTimeline_resume (safeSynthCall s1 (retrievePlayerCurrentTick e)) e s1
          else updateTimeline_totals e s1)"

text \<open>
  \<^verbatim>\<open>
  function safeClearTimeout(timerId, ...) { try { if (timerId) { clearTimeout(timerId); return 0; } } catch ... return 0; }
  function schedulePauseLowPower() {
    pauseLowPowerTimer = safeClearTimeout(pauseLowPowerTimer, 'pause timer');
    pauseLowPowerTimer = setTimeout(() => {
      if (!isPlaying && player) { safePlayerCall(player.setAudioState, AUDIO_STATE.lowPower); }
    }, PAUSE_LOW_POWER_MS);
  }
  function cancelPauseLowPower() {
    pauseLowPowerTimer = safeClearTimeout(pauseLowPowerTimer, 'pause timer in cancel');
    safePlayerCall(player.setAudioState, AUDIO_STATE.wakeUp);
  }
  function clearPauseLowPowerTimer() { pauseLowPowerTimer = safeClearTimeout(pauseLowPowerTimer, ...); }
  \<close>
  \<open>pauseLowPowerFired\<close> is the timer's callback, run when a pending timer fires.
\<close>

definition safeClearTimeout :: "app \<Rightarrow> app" where
  "safeClearTimeout st =
     (if pauseLowPowerTimer st
      then (emit ClearTimeout st)\<lparr>pauseLowPowerTimer := False, timerPending := False\<rparr>
      else st)"

definition schedulePauseLowPower :: "app \<Rightarrow> app" where
  "schedulePauseLowPower st =
     (emit (SetTimeout PAUSE_LOW_POWER_MS) (safeClearTimeout st))
       \<lparr>pauseLowPowerTimer := True, timerPending := True\<rparr>"

definition cancelPauseLowPower :: "app \<Rightarrow> app" where
  "cancelPauseLowPower st = call (setAudioState wakeUp) (safeClearTimeout st)"

definition clearPauseLowPowerTimer :: "app \<Rightarrow> app" where
  "clearPauseLowPowerTimer st = safeClearTimeout st"

definition pauseLowPowerFired :: "app \<Rightarrow> app" where
  "pauseLowPowerFired st =
     (if timerPending st
      then (let s1 = st\<lparr>timerPending := False\<rparr>
            in if \<not> isPlaying s1 then call (setAudioState lowPower) s1 else s1)
      else st)"

text \<open>
  \<^verbatim>\<open>
  function startUiLoop(){ if (!rafId) rafId = requestAnimationFrame(uiLoop); }
  function stopUiLoop(){ if (rafId) { cancelAnimationFrame(rafId); rafId = 0; uiLoop._last = 0; } }
  \<close>
\<close>

definition startUiLoop :: "app \<Rightarrow> app" where
  "startUiLoop st = (if \<not> rafId st then st\<lparr>rafId := True\<rparr> else st)"

definition stopUiLoop :: "app \<Rightarrow> app" where
  "stopUiLoop st = (if rafId st then st\<lparr>rafId := False\<rparr> else st)"

text \<open>
  \<^verbatim>\<open>
  async function playTrack() {
    await ensurePlayer();
    if (!player || currentIndex < 0) return;
    try { if (typeof player.seek === 'function') player.seek(timing.currentTick); } catch (error) { ... }
    suppressFirstSynthRead = true;
    player.play();
    isPlaying = true;
    setPlayPauseIcon(true);
    safePlayerCall(player.setAudioState, AUDIO_STATE.playing);
    startUiLoop();
    cancelPauseLowPower();
  }
  \<close>
\<close>

definition playTrack :: "app \<Rightarrow> app outcome" where
  "playTrack st =
     (if currentIndex st < 0 then Returned st
      else and_then
             (call_partial play
                ((player_seek (currentTick (timing st)) st)\<lparr>suppressFirstSynthRead := True\<rparr>))
             (\<lambda>s1. Returned
                (cancelPauseLowPower
                  (startUiLoop (call (setAudioState playing_state) (s1\<lparr>isPlaying := True\<rparr>))))))"

text \<open>
  \<^verbatim>\<open>
  async function pauseTrack() {
    await ensurePlayer();
    if (!player) return;
    const tick = await safeSynthCall(player._synth?.retrievePlayerCurrentTick);
    if (tick !== null) timing.currentTick = tick;
    if (typeof player.pause === 'function') player.pause();
    isPlaying = false;
    setPlayPauseIcon(false);
    updateTimeline();
    safePlayerCall(player.setAudioState, AUDIO_STATE.paused);
    stopUiLoop();
    schedulePauseLowPower();
  }
  \<close>
  \<open>pauseTrack_resume\<close> is what runs once the answer \<open>tick\<close> of the engine has arrived.
\<close>

definition pauseTrack_resume :: "int option \<Rightarrow> engine \<Rightarrow> app \<Rightarrow> app outcome" where
  "pauseTrack_resume tick e st =
     and_then (call_partial pause (store_tick tick st))
       (\<lambda>s1. Returned
          (schedulePauseLowPower
            (stopUiLoop
              (call (setAudioState paused_state) (updateTimeline e (s1\<lparr>isPlaying := False\<rparr>))))))"

definition pauseTrack :: "engine \<Rightarrow> app \<Rightarrow> app outcome" where
  "pauseTrack e st = pauseTrack_resume (safeSynthCall st (retrievePlayerCurrentTick e)) e st"

text \<open>
  \<^verbatim>\<open>
  async function stopTrack() {
    await ensurePlayer();
    if (!player) return;
    if (typeof player.pause === 'function') player.pause();
    timing.currentTick = 0;
    if (typeof player.seek === 'function') {
      try {
        if (player._synth && player._lastSmfBytes) {
          if (typeof player._synth.stopPlayer === 'function') { player._synth.stopPlayer(); }
          if (typeof player._synth.resetPlayer === 'function') { await player._synth.resetPlayer(); }
          await player._synth.addSMFDataToPlayer(player._lastSmfBytes);
          if (typeof player._synth.seekPlayer === 'function') { player._synth.seekPlayer(0); }
        } else { player.seek(0); }
      } catch(e) { player.seek(0); }
    }
    isPlaying = false;
    setPlayPauseIcon(false);
    await updateTimeline();
    safePlayerCall(player.setAudioState, AUDIO_STATE.stopped);
    stopUiLoop();
    clearPauseLowPowerTimer();
  }
  \<close>
\<close>

definition restartPlayer :: "engine \<Rightarrow> app \<Rightarrow> app" where
  "restartPlayer e st =
     (case lastSmfBytes (player st) of
        None \<Rightarrow> player_seek 0 st
      | Some smf \<Rightarrow>
          if \<not> synth (player st) then player_seek 0 st
          else let s1 = emit ResetPlayer (emit StopPlayer st) in
               if \<not> resetPlayer e then player_seek 0 s1
               else let s2 = emit (AddSMFData smf) s1 in
                    if \<not> addSMFDataToPlayer e then player_seek 0 s2
                    else emit (SeekPlayer (Fin 0)) s2)"

definition stopTrack :: "engine \<Rightarrow> app \<Rightarrow> app outcome" where
  "stopTrack e st =
     and_then (call_partial pause st)
       (\<lambda>s1. Returned
          (clearPauseLowPowerTimer
            (stopUiLoop
              (call (setAudioState stopped_state)
                (updateTimeline e
                  ((restartPlayer e (on_timing (\<lambda>ts. ts\<lparr>currentTick := 0\<rparr>) s1))
                     \<lparr>isPlaying := False\<rparr>))))))"

text \<open>
  \<^verbatim>\<open>
  function loadTrack(index) {
    if (index < 0 || index >= getTrackCount()) return Promise.resolve();
    ensurePlayer();
    const item = playlist[index];
    currentIndex = index;
    highlightActive();
    updateTitle(item.name);
    const proceed = async (arrayBuffer) => {
      try {
        if (typeof player.pause === 'function') player.pause();
        await waitForSynthReady(5000);
        timing.reset();
        parsePpqFromSmfHeader(arrayBuffer);
        const u8 = new Uint8Array(arrayBuffer);
        await player.loadMIDI(u8);
        try {
          const totalTicks = player._synth ? (await player._synth.retrievePlayerTotalTicks()) || 0 : 0;
          const tempoUsPerQuarter = player._synth ? (await player._synth.retrievePlayerMIDITempo()) || DEFAULT_TEMPO_US_PER_QUARTER : DEFAULT_TEMPO_US_PER_QUARTER;
          timing.updateFromSynth(totalTicks, tempoUsPerQuarter);
        } catch (error) { ...; timing.reset(); }
        await updateTimeline();
      } catch (e) { ...; alert('Failed to load: ' + ...); }
    };
    if (item.arrayBuffer) { return proceed(item.arrayBuffer); }
    else { return item.file.arrayBuffer().then((buf) => { item.arrayBuffer = buf; return proceed(buf); }); }
  }
  \<close>
  \<open>proceed\<close> catches every exception and answers it with an alert, so it always returns.
  (\<open>loadMIDI\<close> is reached only after \<open>player.pause()\<close> has returned, that is with a
  synthesizer, where it is never \<open>NotReady\<close>.) Only the read of the file's bytes can
  reject the promise \<open>loadTrack\<close> returns.
\<close>

definition proceed :: "engine \<Rightarrow> bytes \<Rightarrow> app \<Rightarrow> app" where
  "proceed e buf st =
     (case call_partial pause st of
        Aborted x s \<Rightarrow> emit Alert s
      | Returned s1 \<Rightarrow>
          (case call_partial (loadMIDI e buf)
                  (on_timing (\<lambda>ts. parsePpqFromSmfHeader buf (reset ts)) s1) of
             Aborted x s \<Rightarrow> emit Alert s
           | Returned s2 \<Rightarrow>
               updateTimeline e
                 (case (retrievePlayerTotalTicks e, retrievePlayerMIDITempo e) of
                    (Some tt, Some tp) \<Rightarrow>
                      on_timing (updateFromSynth (Some tt)
                         (Some (if tp = 0 then DEFAULT_TEMPO_US_PER_QUARTER else tp))) s2
                  | _ \<Rightarrow> on_timing reset s2)))"

definition loadTrack :: "engine \<Rightarrow> int \<Rightarrow> app \<Rightarrow> app outcome" where
  "loadTrack e index st =
     (if index < 0 \<or> index \<ge> getTrackCount st then Returned st
      else let item = playlist st ! nat index;
               s1 = st\<lparr>currentIndex := index\<rparr>
           in case fileBytes item of
                None \<Rightarrow> Aborted ReadFailure s1
              | Some buf \<Rightarrow> Returned (proceed e buf s1))"

text \<open>
  \<^verbatim>\<open>
  async function togglePlayPause() {
    await ensurePlayer();
    if (isPlaying) { await pauseTrack(); }
    else {
      if (currentIndex === -1 && getTrackCount() > 0) await loadTrack(0);
      playTrack();
    }
  }
  \<close>
\<close>

definition togglePlayPause :: "engine \<Rightarrow> app \<Rightarrow> app outcome" where
  "togglePlayPause e st =
     (if isPlaying st then pauseTrack e st
      else and_then
             (if currentIndex st = - 1 \<and> getTrackCount st > 0 then loadTrack e 0 st
              else Returned st)
             playTrack)"

text \<open>
  \<^verbatim>\<open>
  function onEnded() {
    isPlaying = false;
    playPauseBtn.textContent = ...;
    const len = getTrackCount();
    const loopOn = !!(loopToggle && loopToggle.checked);
    if (len === 1) {
      if (loopOn) {
        timing.currentTick = 0;
        if (typeof player.seek === 'function') player.seek(0);
        playTrack();
      } else { stopTrack(); }
      return;
    }
    const nextIdx = getNextIndexForPlayer();
    if (nextIdx != null) { loadTrack(nextIdx).then(() => playTrack()); }
    else { stopTrack(); }
  }
  \<close>
\<close>

definition onEnded :: "engine \<Rightarrow> app \<Rightarrow> app outcome" where
  "onEnded e st =
     (let s0 = st\<lparr>isPlaying := False\<rparr> in
      if getTrackCount s0 = 1
      then (if loopToggle s0
            then playTrack (player_seek 0 (on_timing (\<lambda>ts. ts\<lparr>currentTick := 0\<rparr>) s0))
            else stopTrack e s0)
      else (case getNextIndexForPlayer s0 of
              Some nextIdx \<Rightarrow> and_then (loadTrack e nextIdx s0) playTrack
            | None \<Rightarrow> stopTrack e s0))"

text \<open>
  \<^verbatim>\<open>
  function checkForTrackEnd(context = 'unknown') {
    try {
      if (!isPlaying || !player || !player._synth) return;
      const reachedEnd = (timing.totalTicks > 0 && timing.currentTick >= timing.totalTicks - 1);
      const synthStopped = (typeof player._synth.isPlayerPlaying === 'function' && !player._synth.isPlayerPlaying());
      if (reachedEnd || synthStopped) { ...; onEnded(); }
    } catch (error) { ... }
  }
  \<close>
\<close>

definition checkForTrackEnd :: "engine \<Rightarrow> app \<Rightarrow> app outcome" where
  "checkForTrackEnd e st =
     (if \<not> isPlaying st \<or> \<not> synth (player st) then Returned st
      else let reachedEnd = (totalTicks (timing st) > 0 \<and>
                             currentTick (timing st) \<ge> totalTicks (timing st) - 1);
               synthStopped = (\<not> isPlayerPlaying e)
           in if reachedEnd \<or> synthStopped then onEnded e st else Returned st)"

text \<open>
  \<^verbatim>\<open>
  async function rewindToBeginning() {
    await ensurePlayer();
    if (!player || currentIndex === -1) return;
    try {
      if (player._synth && typeof player._synth.seekPlayer === 'function') { player._synth.seekPlayer(0); }
      if (typeof player.seek === 'function') { await player.seek(0); }
      timing.currentTick = 0;
      await updateTimeline();
    } catch (e) { ... }
  }
  \<close>
\<close>

definition rewindToBeginning :: "engine \<Rightarrow> app \<Rightarrow> app" where
  "rewindToBeginning e st =
     (if currentIndex st = - 1 then st
      else updateTimeline e
             (on_timing (\<lambda>ts. ts\<lparr>currentTick := 0\<rparr>)
               (player_seek 0
                 (if synth (player st) then emit (SeekPlayer (Fin 0)) st else st))))"

text \<open>
  \<^verbatim>\<open>
  async function prevTrack() { await ensurePlayer(); if (getTrackCount() === 0) return;
    const prevIndex = getPrevIndexForButton(); await loadTrack(prevIndex); playTrack(); }
  async function nextTrack() { await ensurePlayer(); if (getTrackCount() === 0) return;
    const nextIndex = getNextIndexForButton(); await loadTrack(nextIndex); playTrack(); }
  \<close>
\<close>

definition prevTrack :: "engine \<Rightarrow> app \<Rightarrow> app outcome" where
  "prevTrack e st =
     (if getTrackCount st = 0 then Returned st
      else and_then (loadTrack e (getPrevIndexForButton st) st) playTrack)"

definition nextTrack :: "engine \<Rightarrow> app \<Rightarrow> app outcome" where
  "nextTrack e st =
     (if getTrackCount st = 0 then Returned st
      else and_then (loadTrack e (getNextIndexForButton st) st) playTrack)"

text \<open>
  The handler of the seek slider; \<open>v\<close> is the number that the text \<open>seekEl.value\<close> of the
  slider writes in decimal.
  \<^verbatim>\<open>
  seekEl.addEventListener('input', async () => {
    try {
      await ensurePlayer();
      if (timing.totalTicks > 0) {
        const targetTicks = Math.floor((Number(seekEl.value) / SEEK_SLIDER_MAX) * timing.totalTicks);
        timing.currentTick = targetTicks;
        try { if (typeof player.seek === 'function') player.seek(targetTicks); } catch (error) { ... }
        updateTimeline();
      }
    } catch (error) { ... }
  });
  \<close>
  \<open>Number(seekEl.value)\<close>, the quotient and the product are doubles: each is
  \<open>round_double\<close> of its exact value. \<open>timing.totalTicks\<close> is an integer below \<open>2^53\<close>, a
  double as it is. The rounding can move the product across an integer: at the slider
  value 43 of a track of 10000 ticks the product is just below 430 and the tick is 429.
  \<open>seekInput_write\<close> is the handler up to the call of \<open>updateTimeline\<close>.
\<close>

definition targetTicks :: "rat \<Rightarrow> app \<Rightarrow> int" where
  "targetTicks v st =
     \<lfloor>round_double (round_double (round_double v / SEEK_SLIDER_MAX) *
                     of_int (totalTicks (timing st)))\<rfloor>"

definition seekInput_write :: "rat \<Rightarrow> app \<Rightarrow> app" where
  "seekInput_write v st =
     (if totalTicks (timing st) > 0
      then player_seek (targetTicks v st)
             (on_timing (\<lambda>ts. ts\<lparr>currentTick := targetTicks v st\<rparr>) st)
      else st)"

definition seekInput :: "engine \<Rightarrow> rat \<Rightarrow> app \<Rightarrow> app" where
  "seekInput e v st =
     (if totalTicks (timing st) > 0 then updateTimeline e (seekInput_write v st) else st)"

section \<open>Sequences of operations\<close>

datatype op =
    LoadTrack int
  | PlayTrack
  | TogglePlayPause
  | PauseTrack
  | StopTrack
  | SeekInput rat
  | RewindToBeginning
  | NextTrack
  | PrevTrack
  | CheckForTrackEnd
  | UpdateTimeline
  | PauseLowPowerFired

fun step :: "engine \<Rightarrow> op \<Rightarrow> app \<Rightarrow> app outcome" where
  "step e (LoadTrack i) st = loadTrack e i st"
| "step e PlayTrack st = playTrack st"
| "step e TogglePlayPause st = togglePlayPause e st"
| "step e PauseTrack st = pauseTrack e st"
| "step e StopTrack st = stopTrack e st"
| "step e (SeekInput v) st = Returned (seekInput e v st)"
| "step e RewindToBeginning st = Returned (rewindToBeginning e st)"
| "step e NextTrack st = nextTrack e st"
| "step e PrevTrack st = prevTrack e st"
| "step e CheckForTrackEnd st = checkForTrackEnd e st"
| "step e UpdateTimeline st = Returned (updateTimeline e st)"
| "step e PauseLowPowerFired st = Returned (pauseLowPowerFired st)"

text \<open>
  A sequence of operations, each with the answers of the engine during it. An operation
  that is aborted leaves the state it has reached, and the next one starts there.
\<close>

fun run :: "(op \<times> engine) list \<Rightarrow> app \<Rightarrow> app" where
  "run [] st = st"
| "run ((o1, e) # rest) st = run rest (state_of (step e o1 st))"

text \<open>
  The state once \<open>ensurePlayer\<close> has created the adapter and \<open>_init\<close> has finished: no
  track is active, nothing plays, autoplay is on.
\<close>

definition initial_player :: JSSynthPlayer where
  "initial_player =
     \<lparr>synth = True, tickNode = True, nodeConnected = True, tickConnected = True,
      currentTime = 0, playing = False, lastSmfBytes = None\<rparr>"

definition initial_timing :: TimingState where
  "initial_timing =
     \<lparr>currentTick = 0, totalTicks = 0, tempoUsPerQuarter = DEFAULT_TEMPO_US_PER_QUARTER,
      ppq = DEFAULT_PPQ\<rparr>"

definition initial :: "track list \<Rightarrow> bool \<Rightarrow> app" where
  "initial tracks loop =
     \<lparr>player = initial_player, playlist = tracks, currentIndex = - 1, isPlaying = False,
      autoplay = True, loopToggle = loop, timing = initial_timing, rafId = False,
      suppressFirstSynthRead = False, pauseLowPowerTimer = False, timerPending = False,
      issued = []\<rparr>"

section \<open>Notions of the specification\<close>


text \<open>The number a string of decimal digits denotes.\<close>

definition decimal_value :: "string \<Rightarrow> nat" where
  "decimal_value s = foldl (\<lambda>acc c. 10 * acc + (of_char c - 48)) 0 s"

text \<open>The conversion of strings used where it does not matter: every string is \<open>NaN\<close>.\<close>

definition no_strings :: "string \<Rightarrow> jsnum" where
  "no_strings s = NaN"

text \<open>
  The resolution field as the specification words it: the big-endian 16-bit integer at
  byte offset 12; and the four bytes \<open>MThd\<close> that open a track file.
\<close>

definition resolution_field :: "bytes \<Rightarrow> int" where
  "resolution_field buf = 256 * uint (buf ! 12) + uint (buf ! 13)"

definition smf_magic :: "bytes \<Rightarrow> bool" where
  "smf_magic buf = (take 4 buf = [0x4D, 0x54, 0x68, 0x64])"

text \<open>
  A fallback to the last known good value, as the specification words it: a query that
  fails answers what the last successful query answered, \<open>known\<close> before the first one.
\<close>

fun last_known_good :: "int \<Rightarrow> int option list \<Rightarrow> int list" where
  "last_known_good known [] = []"
| "last_known_good known (None # rs) = known # last_known_good known rs"
| "last_known_good known (Some v # rs) = v # last_known_good v rs"

text \<open>
  The states the transport functions are meant for: the adapter is initialised, and a
  timer is pending only while the variable holds its id.
\<close>

definition ready :: "app \<Rightarrow> bool" where
  "ready st =
     (synth (player st) \<and> tickNode (player st) \<and> (timerPending st \<longrightarrow> pauseLowPowerTimer st))"

text \<open>
  The commands a run has added to those sent before it, and what the navigation policy
  calls restarting the track, stopping, and advancing to the track at index \<open>n\<close>:
  a restart seeks to tick 0 and plays with no load in between or after; a stop leaves
  the transport not playing at tick 0 and sends no play command; an advance loads the
  bytes of track \<open>n\<close> and then plays it.
\<close>

definition new_cmds :: "app \<Rightarrow> app outcome \<Rightarrow> cmd list" where
  "new_cmds st r = drop (length (issued st)) (issued (state_of r))"





section \<open>A demonstration playlist\<close>

text \<open>
  A track file with the header \<open>MThd\<close>, length 6, format 1, one track, resolution 480;
  the same bytes with a wrong magic value; with bit 15 of the resolution field set; and
  with a resolution of 0.
\<close>

definition demo_smf :: bytes where
  "demo_smf = [0x4D, 0x54, 0x68, 0x64, 0, 0, 0, 6, 0, 1, 0, 1, 0x01, 0xE0]"

definition riff_smf :: bytes where
  "riff_smf = [0x52, 0x49, 0x46, 0x46, 0, 0, 0, 6, 0, 1, 0, 1, 0x01, 0xE0]"

definition smpte_smf :: bytes where
  "smpte_smf = [0x4D, 0x54, 0x68, 0x64, 0, 0, 0, 6, 0, 1, 0, 1, 0xE7, 0x28]"

definition zero_smf :: bytes where
  "zero_smf = [0x4D, 0x54, 0x68, 0x64, 0, 0, 0, 6, 0, 1, 0, 1, 0, 0]"

definition demo_track :: "bytes \<Rightarrow> track" where
  "demo_track buf = \<lparr>name = ''demo.mid'', fileBytes = Some buf\<rparr>"

text \<open>
  An engine that holds a track of 960 ticks at tempo 500000 and reports the current
  tick \<open>t\<close>; and an engine none of whose queries answers.
\<close>

definition engine_at :: "int \<Rightarrow> engine" where
  "engine_at t =
     \<lparr>retrievePlayerCurrentTick = Some t, retrievePlayerTotalTicks = Some 960,
      retrievePlayerMIDITempo = Some 500000, isPlayerPlaying = True,
      addSMFDataToPlayer = True, resetPlayer = True\<rparr>"

definition engine_down :: engine where
  "engine_down =
     \<lparr>retrievePlayerCurrentTick = None, retrievePlayerTotalTicks = None,
      retrievePlayerMIDITempo = None, isPlayerPlaying = False,
      addSMFDataToPlayer = True, resetPlayer = True\<rparr>"

text \<open>
  One track is loaded and played; then it is paused while the engine reports tick 400;
  then the low-power timer fires.
\<close>

definition loaded_demo :: app where
  "loaded_demo = run [(LoadTrack 0, engine_at 0)] (initial [demo_track demo_smf] False)"

definition playing_demo :: app where
  "playing_demo = run [(PlayTrack, engine_at 0)] loaded_demo"

definition paused_demo :: app where
  "paused_demo = run [(PauseTrack, engine_at 400)] playing_demo"

definition lowPower_demo :: app where
  "lowPower_demo = run [(PauseLowPowerFired, engine_at 400)] paused_demo"

text \<open>The commands sent up to the moment the demonstration track plays.\<close>

definition demo_playing_cmds :: "cmd list" where
  "demo_playing_cmds = [StopPlayer, StopPlayer, ResetPlayer, AddSMFData demo_smf,
              SeekPlayer (Fin 0), CtxResume, PlayPlayer, CtxResume, CtxResume]"

text \<open>The same track is paused while the engine reports tick 1000, past its 960 ticks.\<close>

definition overrun_demo :: app where
  "overrun_demo = run [(PauseTrack, engine_at 1000)] playing_demo"

text \<open>
  The display refreshes once (the read after play is skipped), then a second refresh
  sends its query of the current tick; while the query is in flight the user stops the
  track; then the answer, tick 400, arrives.
\<close>

definition inflight_demo :: app where
  "inflight_demo =
     fst (updateTimeline_begin (run [(UpdateTimeline, engine_at 100)] playing_demo))"

definition stopped_demo :: app where
  "stopped_demo = run [(StopTrack, engine_at 0)] inflight_demo"

definition stale_demo :: app where
  "stale_demo = updateTimeline_resume (Some 400) (engine_at 0) stopped_demo"


text \<open>A track file whose header is well formed and gives the resolution 96.\<close>

definition ppq96_smf :: bytes where
  "ppq96_smf = [0x4D, 0x54, 0x68, 0x64, 0, 0, 0, 6, 0, 1, 0, 1, 0x00, 0x60]"


section \<open>Rounding to a double: properties\<close>











lemma ilog2_values:
  "map ilog2 [1, 2, 3, 4, 1023, 1024, 1 / 2, 3 / 4, 1 / 3, 1 / 4] =
     [0, 1, 1, 2, 9, 10, - 1, - 1, - 2, - 2]"
  by code_simp

lemma round_double_nearest:
  "round_double (1 / 10) = 3602879701896397 / 2 ^ 55"
  "round_double (2 ^ 53 + 1) = 2 ^ 53"
  "round_double (2 ^ 53 + 3) = 2 ^ 53 + 4"
  "round_double (- (7 / 2)) = - (7 / 2)"
  by code_simp+

lemma round_double_rounds:
  "\<lfloor>round_double (10 ^ 20 / 3600)\<rfloor> = 27777777777777776"
  "(10 ^ 20 :: int) div 3600 = 27777777777777777"
  "\<lfloor>round_double (round_double (43 / 1000) * 10000)\<rfloor> = 429"
  "\<lfloor>(43 / 1000) * (10000 :: rat)\<rfloor> = 430"
  by code_simp+

section \<open>Time formatting: properties\<close>

declare String_nat.simps [simp del]

lemma digit_char_cases:
  "d < 10 \<Longrightarrow> d = 0 \<or> d = 1 \<or> d = 2 \<or> d = 3 \<or> d = 4 \<or> d = 5 \<or> d = 6 \<or> d = 7 \<or> d = 8 \<or> d = (9::nat)"
  by arith

lemma of_char_digit_char: "d < 10 \<Longrightarrow> (of_char (digit_char d) :: nat) = 48 + d"
  using digit_char_cases[of d] by (auto simp: digit_char_def)

text \<open>\<open>String_nat\<close> writes the number itself, and an unpadded one: no leading zero.\<close>

lemma decimal_value_String_nat: "decimal_value (String_nat n) = n"
proof (induction n rule: String_nat.induct)
  case (1 n)
  show ?case
  proof (cases "n < 10")
    case True
    then show ?thesis
      by (simp add: String_nat.simps[of n] decimal_value_def of_char_digit_char)
  next
    case False
    with 1 have "decimal_value (String_nat (n div 10)) = n div 10" by simp
    with False show ?thesis
      by (simp add: String_nat.simps[of n] decimal_value_def of_char_digit_char)
  qed
qed













section \<open>The adapter's seek: properties\<close>

lemma seek_tick_cases:
  "seek_tick f x =
     (case ToNumber f x of
        NaN \<Rightarrow> Fin 0
      | PosInf \<Rightarrow> PosInf
      | NegInf \<Rightarrow> Fin 0
      | Fin q \<Rightarrow> Fin (of_int (max 0 \<lfloor>q\<rfloor>)))"
  by (simp add: seek_tick_def max_def split: jsnum.splits)

lemma seek_tick_nonneg_integer:
  "nonneg_integer (seek_tick f x) \<longleftrightarrow> ToNumber f x \<noteq> PosInf"
  by (simp add: seek_tick_cases split: jsnum.splits)

text \<open>
  Claim C10, as stated, fails: the argument \<open>Infinity\<close> is truthy, its floor is
  \<open>Infinity\<close>, and \<open>Infinity\<close>, which is not an integer, is what the engine receives.
\<close>

theorem seek_infinity_counterexample:
  "synth initial_player \<and>
   snd (seek no_strings (JNum PosInf) initial_player) = [SeekPlayer PosInf] \<and>
   \<not> nonneg_integer PosInf"
  by (simp add: seek_def seek_tick_def initial_player_def)

text \<open>
  Claim C10, amended. For every argument \<open>x\<close> and every conversion of strings: without
  a synthesizer the call does nothing; with one, the engine receives exactly
  \<open>max(0, floor(Number(x) || 0))\<close>, and the cached current time is set to 0 exactly when
  that tick is 0 and is left alone otherwise. The tick is a non-negative integer for
  every \<open>x\<close> whose number is not \<open>+Infinity\<close>; for \<open>+Infinity\<close> it is \<open>+Infinity\<close>.
\<close>

theorem seek_forwards_sanitised_tick:
  "(\<not> synth ad \<longrightarrow> seek f x ad = (ad, [])) \<and>
   (synth ad \<longrightarrow>
      snd (seek f x ad) = [SeekPlayer (Math_max (Fin 0) (Math_floor (or_zero (ToNumber f x))))] \<and>
      fst (seek f x ad) =
        (if Math_max (Fin 0) (Math_floor (or_zero (ToNumber f x))) = Fin 0
         then ad\<lparr>currentTime := 0\<rparr> else ad)) \<and>
   (ToNumber f x \<noteq> PosInf \<longrightarrow>
      nonneg_integer (Math_max (Fin 0) (Math_floor (or_zero (ToNumber f x))))) \<and>
   (ToNumber f x = PosInf \<longrightarrow>
      Math_max (Fin 0) (Math_floor (or_zero (ToNumber f x))) = PosInf)"
  using seek_tick_nonneg_integer[of f x]
  by (auto simp: seek_def Let_def seek_tick_def)

theorem seek_forwards_sanitised_tick_witness:
  "synth initial_player \<and>
   ToNumber no_strings (JNum (Fin (5 / 2))) \<noteq> PosInf \<and>
   seek no_strings (JNum (Fin (5 / 2))) (initial_player\<lparr>currentTime := 9\<rparr>) =
     (initial_player\<lparr>currentTime := 9\<rparr>, [SeekPlayer (Fin 2)]) \<and>
   nonneg_integer (Fin 2)"
proof -
  have fl: "\<lfloor>5 / 2 :: rat\<rfloor> = 2" by code_simp
  show ?thesis
    using seek_forwards_sanitised_tick[of "initial_player\<lparr>currentTime := 9\<rparr>" no_strings
        "JNum (Fin (5 / 2))"]
    by (simp add: initial_player_def fl prod_eq_iff)
qed

section \<open>The transport controller: what each operation does\<close>

lemma seek_tick_int: "seek_tick f (JNum (Fin (of_int t))) = Fin (of_int (max 0 t))"
  by (simp add: seek_tick_def max_def)

lemma setMainNodeEnabled_eq:
  "synth ad \<Longrightarrow> setMainNodeEnabled b ad =
     (ad\<lparr>nodeConnected := b\<rparr>,
      if nodeConnected ad = b then [] else [if b then NodeConnect else NodeDisconnect])"
  by (cases ad) (simp add: setMainNodeEnabled_def)

lemma setHeartbeatEnabled_eq:
  "tickNode ad \<Longrightarrow> setHeartbeatEnabled b ad =
     (ad\<lparr>tickConnected := b\<rparr>,
      if tickConnected ad = b then [] else [if b then TickConnect else TickDisconnect])"
  by (cases ad) (simp add: setHeartbeatEnabled_def)

declare setAudioState.simps [simp del]

lemma setAudioState_playing:
  "synth ad \<Longrightarrow> tickNode ad \<Longrightarrow> setAudioState playing_state ad =
     (ad\<lparr>nodeConnected := True, tickConnected := True\<rparr>,
      CtxResume # (if nodeConnected ad then [] else [NodeConnect]) @
      (if tickConnected ad then [] else [TickConnect]))"
  by (simp add: setAudioState.simps seq_def setIdle_def setMainNodeEnabled_eq setHeartbeatEnabled_eq)

lemma setAudioState_paused:
  "tickNode ad \<Longrightarrow> setAudioState paused_state ad =
     (ad\<lparr>tickConnected := False\<rparr>, if tickConnected ad then [TickDisconnect] else [])"
  by (simp add: setAudioState.simps setHeartbeatEnabled_eq)

lemma setAudioState_stopped:
  "synth ad \<Longrightarrow> tickNode ad \<Longrightarrow> setAudioState stopped_state ad =
     (ad\<lparr>tickConnected := False, nodeConnected := False\<rparr>,
      (if tickConnected ad then [TickDisconnect] else []) @
      (if nodeConnected ad then [NodeDisconnect] else []) @ [CtxSuspend])"
  by (simp add: setAudioState.simps seq_def setIdle_def setMainNodeEnabled_eq setHeartbeatEnabled_eq)

lemma setAudioState_lowPower:
  "synth ad \<Longrightarrow> tickNode ad \<Longrightarrow> setAudioState lowPower ad =
     (ad\<lparr>tickConnected := False, nodeConnected := False\<rparr>,
      (if tickConnected ad then [TickDisconnect] else []) @
      (if nodeConnected ad then [NodeDisconnect] else []) @ [CtxSuspend])"
  by (simp add: setAudioState.simps seq_def setIdle_def setMainNodeEnabled_eq setHeartbeatEnabled_eq)

lemma setAudioState_wakeUp:
  "synth ad \<Longrightarrow> setAudioState wakeUp ad =
     (ad\<lparr>nodeConnected := True\<rparr>, CtxResume # (if nodeConnected ad then [] else [NodeConnect]))"
  by (simp add: setAudioState.simps seq_def setIdle_def setMainNodeEnabled_eq)

lemma call_eq:
  "call m st = st\<lparr>player := fst (m (player st)), issued := issued st @ snd (m (player st))\<rparr>"
  by (simp add: call_def case_prod_unfold)

lemma player_seek_eq:
  "synth (player st) \<Longrightarrow> player_seek t st =
     st\<lparr>player := (player st)\<lparr>currentTime := (if t \<le> 0 then 0 else currentTime (player st))\<rparr>,
        issued := issued st @ [SeekPlayer (Fin (of_int (max 0 t)))]\<rparr>"
  by (cases "player st") (simp add: player_seek_def call_eq seek_def seek_tick_int Let_def max_def)

lemma call_play_eq:
  "synth (player st) \<Longrightarrow> call_partial play st =
     Returned (st\<lparr>player := (player st)\<lparr>playing := True\<rparr>, issued := issued st @ [CtxResume, PlayPlayer]\<rparr>)"
  by (simp add: call_partial_def play_def)

lemma call_pause_eq:
  "synth (player st) \<Longrightarrow> call_partial pause st =
     Returned (st\<lparr>player := (player st)\<lparr>playing := False\<rparr>, issued := issued st @ [StopPlayer]\<rparr>)"
  by (simp add: call_partial_def pause_def)

lemma startUiLoop_eq: "startUiLoop st = st\<lparr>rafId := True\<rparr>"
  by (cases st) (simp add: startUiLoop_def)

lemma stopUiLoop_eq: "stopUiLoop st = st\<lparr>rafId := False\<rparr>"
  by (cases st) (simp add: stopUiLoop_def)

lemma safeClearTimeout_eq:
  "safeClearTimeout st =
     st\<lparr>pauseLowPowerTimer := False,
        timerPending := (timerPending st \<and> \<not> pauseLowPowerTimer st),
        issued := issued st @ (if pauseLowPowerTimer st then [ClearTimeout] else [])\<rparr>"
  by (cases st) (simp add: safeClearTimeout_def emit_def)

lemma playTrack_eq:
  assumes "synth (player st)" "tickNode (player st)" "0 \<le> currentIndex st"
  shows "playTrack st = Returned
     (st\<lparr>player := (player st)\<lparr>currentTime := (if currentTick (timing st) \<le> 0 then 0 else currentTime (player st)),
                                    playing := True, nodeConnected := True, tickConnected := True\<rparr>,
         suppressFirstSynthRead := True, isPlaying := True, rafId := True,
         pauseLowPowerTimer := False,
         timerPending := (timerPending st \<and> \<not> pauseLowPowerTimer st),
         issued := issued st @
           [SeekPlayer (Fin (of_int (max 0 (currentTick (timing st))))), CtxResume, PlayPlayer, CtxResume] @
           (if nodeConnected (player st) then [] else [NodeConnect]) @
           (if tickConnected (player st) then [] else [TickConnect]) @
           (if pauseLowPowerTimer st then [ClearTimeout] else []) @ [CtxResume]\<rparr>)"
  using assms
  by (simp add: playTrack_def player_seek_eq call_play_eq call_eq setAudioState_playing
      setAudioState_wakeUp startUiLoop_eq cancelPauseLowPower_def safeClearTimeout_eq)

lemmas op_eqs = call_eq player_seek_eq call_play_eq call_pause_eq startUiLoop_eq stopUiLoop_eq
  safeClearTimeout_eq setAudioState_playing setAudioState_paused setAudioState_stopped
  setAudioState_lowPower setAudioState_wakeUp

lemma updateTimeline_frame:
  "player (updateTimeline e st) = player st"
  "issued (updateTimeline e st) = issued st"
  "isPlaying (updateTimeline e st) = isPlaying st"
  "currentIndex (updateTimeline e st) = currentIndex st"
  "playlist (updateTimeline e st) = playlist st"
  "rafId (updateTimeline e st) = rafId st"
  "pauseLowPowerTimer (updateTimeline e st) = pauseLowPowerTimer st"
  "timerPending (updateTimeline e st) = timerPending st"
  "autoplay (updateTimeline e st) = autoplay st"
  "loopToggle (updateTimeline e st) = loopToggle st"
  "ppq (timing (updateTimeline e st)) = ppq (timing st)"
  by (simp_all add: updateTimeline_def updateTimeline_begin_def updateTimeline_resume_def
      updateTimeline_totals_def store_tick_def on_timing_def updateFromSynth_def Let_def
      split: option.splits)

lemma updateTimeline_not_playing:
  assumes "\<not> isPlaying st"
  shows "currentTick (timing (updateTimeline e st)) = currentTick (timing st)"
    and "suppressFirstSynthRead (updateTimeline e st) = suppressFirstSynthRead st"
  using assms
  by (simp_all add: updateTimeline_def updateTimeline_begin_def updateTimeline_totals_def
      on_timing_def updateFromSynth_def Let_def split: option.splits)




lemma pauseTrack_resume_ready:
  assumes "ready st"
  shows "\<exists>s'. pauseTrack_resume tick e st = Returned s' \<and> ready s' \<and> \<not> isPlaying s' \<and>
            timerPending s' \<and> pauseLowPowerTimer s' \<and> \<not> rafId s' \<and>
            \<not> tickConnected (player s') \<and> nodeConnected (player s') = nodeConnected (player st) \<and>
            currentIndex s' = currentIndex st \<and> playlist s' = playlist st \<and>
            currentTick (timing s') = (case tick of None \<Rightarrow> currentTick (timing st) | Some t \<Rightarrow> t) \<and>
            issued s' = issued st @ [StopPlayer] @
              (if tickConnected (player st) then [TickDisconnect] else []) @
              (if pauseLowPowerTimer st then [ClearTimeout] else []) @
              [SetTimeout PAUSE_LOW_POWER_MS]"
proof -
  from assms have sy: "synth (player st)" and tn: "tickNode (player st)"
    by (simp_all add: ready_def)
  define s1 where "s1 = (store_tick tick st)\<lparr>player := (player st)\<lparr>playing := False\<rparr>,
      issued := issued st @ [StopPlayer], isPlaying := False\<rparr>"
  have np: "\<not> isPlaying s1" by (simp add: s1_def)
  have f1: "synth (player s1)" "tickNode (player s1)" "issued s1 = issued st @ [StopPlayer]"
    "currentIndex s1 = currentIndex st" "playlist s1 = playlist st"
    "tickConnected (player s1) = tickConnected (player st)"
    "nodeConnected (player s1) = nodeConnected (player st)"
    "pauseLowPowerTimer s1 = pauseLowPowerTimer st"
    "currentTick (timing s1) = (case tick of None \<Rightarrow> currentTick (timing st) | Some t \<Rightarrow> t)"
    using sy tn by (simp_all add: s1_def store_tick_def on_timing_def split: option.splits)
  note u = updateTimeline_frame[of e s1] updateTimeline_not_playing[OF np, of e]
  have st: "pauseTrack_resume tick e st =
      Returned (schedulePauseLowPower (stopUiLoop (call (setAudioState paused_state) (updateTimeline e s1))))"
    using sy by (simp add: pauseTrack_resume_def call_pause_eq s1_def store_tick_def on_timing_def
        split: option.splits)
  show ?thesis
    unfolding st
    by (simp add: ready_def schedulePauseLowPower_def emit_def op_eqs u f1 np)
qed
lemma and_8000:
  fixes d :: int
  assumes "- 32768 \<le> d" "d < 32768"
  shows "(d AND 0x8000 = 0) = (0 \<le> d)"
proof -
  have "d AND 2 ^ 15 = 0 \<longleftrightarrow> \<not> bit d 15" by (rule and_exp_eq_0_iff_not_bit)
  moreover have "bit d 15 \<longleftrightarrow> odd (d div 2 ^ 15)" by (rule bit_iff_odd)
  moreover have "odd (d div 2 ^ 15) \<longleftrightarrow> d < 0"
  proof (cases "0 \<le> d")
    case True
    with assms have "d div 32768 = 0" by simp
    with True show ?thesis by simp
  next
    case False
    with assms have "d div 32768 = - 1" by (simp add: div_eq_minus1 zdiv_eq_0_iff) 
    with False show ?thesis by simp
  qed
  ultimately show ?thesis by auto
qed

lemma byte_bounds: "0 \<le> uint (b :: 8 word) \<and> uint b < 256"
  using uint_bounded[of b] by simp

lemma split_low_byte:
  fixes x d n :: int
  assumes "0 \<le> d" "d < 256" "x * 256 + d = n"
  shows "d = n mod 256 \<and> x = n div 256"
proof -
  from assms have "n mod 256 = d" by (metis add.commute mod_mult_self3 mod_pos_pos_trivial)
  moreover from assms have "n div 256 = x" by (metis add.commute div_mult_self3 div_pos_pos_trivial add.right_neutral zero_neq_numeral)
  ultimately show ?thesis by simp
qed

lemma magic_arith:
  fixes a b c d :: int
  assumes "0 \<le> a" "a < 256" "0 \<le> b" "b < 256" "0 \<le> c" "c < 256" "0 \<le> d" "d < 256"
  shows "(((a * 256 + b) * 256 + c) * 256 + d = 0x4D546864) = (a = 0x4D \<and> b = 0x54 \<and> c = 0x68 \<and> d = 0x64)"
proof
  assume eq: "((a * 256 + b) * 256 + c) * 256 + d = 0x4D546864"
  from split_low_byte[OF assms(7,8) eq] have d: "d = 0x64" and r1: "(a * 256 + b) * 256 + c = 5067880" by simp_all
  from split_low_byte[OF assms(5,6) r1] have c: "c = 0x68" and r2: "a * 256 + b = 19796" by simp_all
  from split_low_byte[OF assms(3,4) r2] have b: "b = 0x54" and a: "a = 0x4D" by simp_all
  from a b c d show "a = 0x4D \<and> b = 0x54 \<and> c = 0x68 \<and> d = 0x64" by simp
next
  assume "a = 0x4D \<and> b = 0x54 \<and> c = 0x68 \<and> d = 0x64"
  then show "((a * 256 + b) * 256 + c) * 256 + d = 0x4D546864" by simp
qed

lemma magic_iff:
  assumes "4 \<le> length buf"
  shows "(getUint32 buf 0 = Inr 0x4D546864) = smf_magic buf"
proof -
  from assms obtain b0 b1 b2 b3 rest where buf: "buf = b0 # b1 # b2 # b3 # rest"
    by (cases buf; cases "tl buf"; cases "tl (tl buf)"; cases "tl (tl (tl buf))") auto
  have "(getUint32 buf 0 = Inr 0x4D546864) =
        (uint b0 = 0x4D \<and> uint b1 = 0x54 \<and> uint b2 = 0x68 \<and> uint b3 = 0x64)"
    using magic_arith[of "uint b0" "uint b1" "uint b2" "uint b3"]
      byte_bounds[of b0] byte_bounds[of b1] byte_bounds[of b2] byte_bounds[of b3]
    by (simp add: getUint32_def buf)
  also have "\<dots> = smf_magic buf"
    by (simp add: smf_magic_def buf word_uint_eq_iff)
  finally show ?thesis .
qed

lemma getInt16_12:
  assumes "14 \<le> length buf"
  shows "getInt16 buf 12 = Inr (if resolution_field buf \<ge> 32768 then resolution_field buf - 65536 else resolution_field buf)"
  using assms by (simp add: getInt16_def resolution_field_def Let_def mult.commute)

lemma resolution_field_bounds: "0 \<le> resolution_field buf \<and> resolution_field buf < 65536"
  using byte_bounds[of "buf ! 12"] byte_bounds[of "buf ! 13"] by (simp add: resolution_field_def)

lemma parsePpq_spec:
  "parsePpqFromSmfHeader buf ts =
     (if 14 \<le> length buf \<and> smf_magic buf \<and> resolution_field buf < 32768
      then (if resolution_field buf > 0 then ts\<lparr>ppq := resolution_field buf\<rparr> else ts\<lparr>ppq := DEFAULT_PPQ\<rparr>)
      else ts)"
proof (cases "4 \<le> length buf")
  case False
  then show ?thesis by (simp add: parsePpqFromSmfHeader_def getUint32_def)
next
  case len4: True
  show ?thesis
  proof (cases "smf_magic buf")
    case False
    with len4 magic_iff[OF len4] show ?thesis
      by (auto simp add: parsePpqFromSmfHeader_def getUint32_def split: sum.splits)
  next
    case magic: True
    with magic_iff[OF len4] have m: "getUint32 buf 0 = Inr 0x4D546864" by simp
    show ?thesis
    proof (cases "14 \<le> length buf")
      case False
      then show ?thesis by (simp add: parsePpqFromSmfHeader_def m getInt16_def)
    next
      case True
      note rb = resolution_field_bounds[of buf]
      show ?thesis
      proof (cases "resolution_field buf < 32768")
        case small: True
        with rb have "(resolution_field buf AND 0x8000 = 0) = (0 \<le> resolution_field buf)"
          by (intro and_8000) auto
        with small rb True magic show ?thesis
          by (simp add: parsePpqFromSmfHeader_def m getInt16_12[OF True])
      next
        case big: False
        with rb have "((resolution_field buf - 65536) AND 0x8000 = 0) = (0 \<le> resolution_field buf - 65536)"
          by (intro and_8000) auto
        with big rb True magic show ?thesis
          by (simp add: parsePpqFromSmfHeader_def m getInt16_12[OF True])
      qed
    qed
  qed
qed


lemma ppq_parse_reset:
  "ppq (parsePpqFromSmfHeader buf (reset ts)) =
     (if 14 \<le> length buf \<and> smf_magic buf \<and> 0 < resolution_field buf \<and> resolution_field buf < 32768
      then resolution_field buf else DEFAULT_PPQ)"
  by (simp add: parsePpq_spec reset_def)

lemma parse_keeps_ticks:
  "currentTick (parsePpqFromSmfHeader buf ts) = currentTick ts"
  "totalTicks (parsePpqFromSmfHeader buf ts) = totalTicks ts"
  by (simp_all add: parsePpq_spec)

lemma call_loadMIDI_eq:
  "synth (player st) \<Longrightarrow> call_partial (loadMIDI e buf) st =
     (if addSMFDataToPlayer e
      then Returned (st\<lparr>player := (player st)\<lparr>lastSmfBytes := Some buf, currentTime := 0\<rparr>,
                       issued := issued st @ [StopPlayer, ResetPlayer, AddSMFData buf]\<rparr>)
      else Aborted EngineFailure
             (st\<lparr>player := (player st)\<lparr>lastSmfBytes := Some buf\<rparr>,
                 issued := issued st @ [StopPlayer, ResetPlayer, AddSMFData buf]\<rparr>))"
  by (simp add: call_partial_def loadMIDI_def Let_def)

lemma proceed_frame:
  assumes "synth (player st)"
  shows "issued (proceed e buf st) =
           issued st @ [StopPlayer, StopPlayer, ResetPlayer, AddSMFData buf] @
           (if addSMFDataToPlayer e then [] else [Alert])"
    "currentIndex (proceed e buf st) = currentIndex st"
    "isPlaying (proceed e buf st) = isPlaying st"
    "playlist (proceed e buf st) = playlist st"
    "rafId (proceed e buf st) = rafId st"
    "pauseLowPowerTimer (proceed e buf st) = pauseLowPowerTimer st"
    "timerPending (proceed e buf st) = timerPending st"
    "autoplay (proceed e buf st) = autoplay st"
    "loopToggle (proceed e buf st) = loopToggle st"
    "synth (player (proceed e buf st))"
    "tickNode (player (proceed e buf st)) = tickNode (player st)"
    "nodeConnected (player (proceed e buf st)) = nodeConnected (player st)"
    "tickConnected (player (proceed e buf st)) = tickConnected (player st)"
    "lastSmfBytes (player (proceed e buf st)) = Some buf"
  using assms
  by (simp_all add: proceed_def call_pause_eq call_loadMIDI_eq on_timing_def emit_def
      updateTimeline_frame split: option.splits)

lemma proceed_ppq:
  assumes "synth (player st)"
  shows "ppq (timing (proceed e buf st)) =
     (if addSMFDataToPlayer e \<and>
         (retrievePlayerTotalTicks e = None \<or> retrievePlayerMIDITempo e = None)
      then DEFAULT_PPQ
      else ppq (parsePpqFromSmfHeader buf (reset (timing st))))"
  using assms
  by (simp add: proceed_def call_pause_eq call_loadMIDI_eq on_timing_def emit_def
      updateTimeline_frame updateFromSynth_def reset_def Let_def split: option.splits)

lemma proceed_tick:
  assumes "synth (player st)" "\<not> isPlaying st"
  shows "currentTick (timing (proceed e buf st)) = 0"
  using assms
  by (simp add: proceed_def call_pause_eq call_loadMIDI_eq on_timing_def emit_def
      updateTimeline_not_playing updateFromSynth_def reset_def parse_keeps_ticks Let_def
      split: option.splits)

lemma proceed_ready: "ready st \<Longrightarrow> ready (proceed e buf st)"
  by (simp add: ready_def proceed_frame)

lemma loadTrack_eq:
  assumes "0 \<le> i" "i < getTrackCount st" "fileBytes (playlist st ! nat i) = Some buf"
  shows "loadTrack e i st = Returned (proceed e buf (st\<lparr>currentIndex := i\<rparr>))"
  using assms by (simp add: loadTrack_def Let_def)

lemma playTrack_ready:
  assumes "ready st" "0 \<le> currentIndex st"
  shows "\<exists>s'. playTrack st = Returned s' \<and> ready s' \<and> isPlaying s' \<and> \<not> timerPending s' \<and>
            \<not> pauseLowPowerTimer s' \<and> nodeConnected (player s') \<and> tickConnected (player s') \<and>
            suppressFirstSynthRead s' \<and> rafId s' \<and>
            timing s' = timing st \<and> currentIndex s' = currentIndex st \<and> playlist s' = playlist st \<and>
            issued s' = issued st @
              [SeekPlayer (Fin (of_int (max 0 (currentTick (timing st))))), CtxResume, PlayPlayer, CtxResume] @
              (if nodeConnected (player st) then [] else [NodeConnect]) @
              (if tickConnected (player st) then [] else [TickConnect]) @
              (if pauseLowPowerTimer st then [ClearTimeout] else []) @ [CtxResume]"
proof -
  from assms(1) have sy: "synth (player st)" and tn: "tickNode (player st)"
    and tm: "timerPending st \<longrightarrow> pauseLowPowerTimer st"
    by (simp_all add: ready_def)
  show ?thesis
    unfolding playTrack_eq[OF sy tn assms(2)] using sy tn tm
    by (simp add: ready_def)
qed

section \<open>The demonstration runs, evaluated\<close>

lemmas demo_defs = initial_def initial_player_def initial_timing_def
  demo_track_def engine_at_def engine_down_def

lemmas eval_defs = getTrackCount_def loadTrack_def proceed_def call_partial_def pause_def play_def
  loadMIDI_def on_timing_def emit_def reset_def updateFromSynth_def updateTimeline_def
  updateTimeline_begin_def updateTimeline_resume_def updateTimeline_totals_def store_tick_def
  safeSynthCall_def playTrack_def pauseTrack_def pauseTrack_resume_def stopTrack_def
  restartPlayer_def schedulePauseLowPower_def cancelPauseLowPower_def clearPauseLowPowerTimer_def
  pauseLowPowerFired_def safeClearTimeout_def startUiLoop_def stopUiLoop_def call_def
  player_seek_def seek_def seek_tick_def seq_def setIdle_def setMainNodeEnabled_def
  setHeartbeatEnabled_def setAudioState.simps Let_def

lemma demo_header: "parsePpqFromSmfHeader demo_smf ts = ts\<lparr>ppq := 480\<rparr>"
  by (simp add: parsePpq_spec demo_smf_def smf_magic_def resolution_field_def)

lemma loaded_demo_val: "loaded_demo =
   \<lparr>player = \<lparr>synth = True, tickNode = True, nodeConnected = True, tickConnected = True,
        currentTime = 0, playing = False, lastSmfBytes = Some demo_smf\<rparr>,
    playlist = [demo_track demo_smf], currentIndex = 0, isPlaying = False, autoplay = True,
    loopToggle = False,
    timing = \<lparr>currentTick = 0, totalTicks = 960, tempoUsPerQuarter = 500000, ppq = 480\<rparr>,
    rafId = False, suppressFirstSynthRead = False, pauseLowPowerTimer = False,
    timerPending = False,
    issued = [StopPlayer, StopPlayer, ResetPlayer, AddSMFData demo_smf]\<rparr>"
  by (simp add: loaded_demo_def demo_defs eval_defs demo_header)

lemma playing_demo_val: "playing_demo =
   \<lparr>player = \<lparr>synth = True, tickNode = True, nodeConnected = True, tickConnected = True,
        currentTime = 0, playing = True, lastSmfBytes = Some demo_smf\<rparr>,
    playlist = [demo_track demo_smf], currentIndex = 0, isPlaying = True, autoplay = True,
    loopToggle = False,
    timing = \<lparr>currentTick = 0, totalTicks = 960, tempoUsPerQuarter = 500000, ppq = 480\<rparr>,
    rafId = True, suppressFirstSynthRead = True, pauseLowPowerTimer = False,
    timerPending = False,
    issued = [StopPlayer, StopPlayer, ResetPlayer, AddSMFData demo_smf,
              SeekPlayer (Fin 0), CtxResume, PlayPlayer, CtxResume, CtxResume]\<rparr>"
  by (simp add: playing_demo_def loaded_demo_val eval_defs)

lemma paused_at: "state_of (pauseTrack (engine_at t) playing_demo) =
   \<lparr>player = \<lparr>synth = True, tickNode = True, nodeConnected = True, tickConnected = False,
        currentTime = 0, playing = False, lastSmfBytes = Some demo_smf\<rparr>,
    playlist = [demo_track demo_smf], currentIndex = 0, isPlaying = False, autoplay = True,
    loopToggle = False,
    timing = \<lparr>currentTick = t, totalTicks = 960, tempoUsPerQuarter = 500000, ppq = 480\<rparr>,
    rafId = False, suppressFirstSynthRead = True, pauseLowPowerTimer = True,
    timerPending = True,
    issued = demo_playing_cmds @ [StopPlayer, TickDisconnect, SetTimeout 30000]\<rparr>"
  by (simp add: playing_demo_val eval_defs engine_at_def demo_playing_cmds_def)

lemma paused_demo_val: "paused_demo =
   \<lparr>player = \<lparr>synth = True, tickNode = True, nodeConnected = True, tickConnected = False,
        currentTime = 0, playing = False, lastSmfBytes = Some demo_smf\<rparr>,
    playlist = [demo_track demo_smf], currentIndex = 0, isPlaying = False, autoplay = True,
    loopToggle = False,
    timing = \<lparr>currentTick = 400, totalTicks = 960, tempoUsPerQuarter = 500000, ppq = 480\<rparr>,
    rafId = False, suppressFirstSynthRead = True, pauseLowPowerTimer = True,
    timerPending = True,
    issued = demo_playing_cmds @ [StopPlayer, TickDisconnect, SetTimeout 30000]\<rparr>"
  by (simp add: paused_demo_def paused_at)

lemma lowPower_demo_val: "lowPower_demo =
   \<lparr>player = \<lparr>synth = True, tickNode = True, nodeConnected = False, tickConnected = False,
        currentTime = 0, playing = False, lastSmfBytes = Some demo_smf\<rparr>,
    playlist = [demo_track demo_smf], currentIndex = 0, isPlaying = False, autoplay = True,
    loopToggle = False,
    timing = \<lparr>currentTick = 400, totalTicks = 960, tempoUsPerQuarter = 500000, ppq = 480\<rparr>,
    rafId = False, suppressFirstSynthRead = True, pauseLowPowerTimer = True,
    timerPending = False,
    issued = demo_playing_cmds @ [StopPlayer, TickDisconnect, SetTimeout 30000, NodeDisconnect, CtxSuspend]\<rparr>"
  by (simp add: lowPower_demo_def paused_demo_val pauseLowPowerFired_def call_def
      setAudioState.simps seq_def setIdle_def setMainNodeEnabled_def setHeartbeatEnabled_def)

lemma inflight_demo_val: "inflight_demo = playing_demo\<lparr>suppressFirstSynthRead := False\<rparr>"
  "snd (updateTimeline_begin (updateTimeline (engine_at 100) playing_demo))"
  by (simp_all add: inflight_demo_def playing_demo_val eval_defs engine_at_def)

lemma stopped_demo_val: "stopped_demo =
   \<lparr>player = \<lparr>synth = True, tickNode = True, nodeConnected = False, tickConnected = False,
        currentTime = 0, playing = False, lastSmfBytes = Some demo_smf\<rparr>,
    playlist = [demo_track demo_smf], currentIndex = 0, isPlaying = False, autoplay = True,
    loopToggle = False,
    timing = \<lparr>currentTick = 0, totalTicks = 960, tempoUsPerQuarter = 500000, ppq = 480\<rparr>,
    rafId = False, suppressFirstSynthRead = False, pauseLowPowerTimer = False,
    timerPending = False,
    issued = demo_playing_cmds @ [StopPlayer, StopPlayer, ResetPlayer, AddSMFData demo_smf,
       SeekPlayer (Fin 0), TickDisconnect, NodeDisconnect, CtxSuspend]\<rparr>"
  by (simp add: stopped_demo_def inflight_demo_val playing_demo_val eval_defs engine_at_def demo_playing_cmds_def)

section \<open>Pausing, playing and the low-power timer, summarised\<close>

lemma new_cmds_Returned: "issued s' = issued st @ cs \<Longrightarrow> new_cmds st (Returned s') = cs"
  by (simp add: new_cmds_def)

lemma pauseTrack_ready:
  assumes "ready st"
  shows "returned (pauseTrack e st)"
    "ready (state_of (pauseTrack e st))"
    "\<not> isPlaying (state_of (pauseTrack e st))"
    "timerPending (state_of (pauseTrack e st))"
    "\<not> tickConnected (player (state_of (pauseTrack e st)))"
    "nodeConnected (player (state_of (pauseTrack e st))) = nodeConnected (player st)"
    "currentTick (timing (state_of (pauseTrack e st))) =
       (case retrievePlayerCurrentTick e of None \<Rightarrow> currentTick (timing st) | Some t \<Rightarrow> t)"
    "new_cmds st (pauseTrack e st) = [StopPlayer] @
              (if tickConnected (player st) then [TickDisconnect] else []) @
              (if pauseLowPowerTimer st then [ClearTimeout] else []) @
              [SetTimeout PAUSE_LOW_POWER_MS]"
proof -
  from assms have sy: "synth (player st)" by (simp add: ready_def)
  from pauseTrack_resume_ready[OF assms, of "retrievePlayerCurrentTick e" e]
  obtain s' where s': "pauseTrack e st = Returned s'" "ready s'" "\<not> isPlaying s'"
    "timerPending s'" "\<not> tickConnected (player s')"
    "nodeConnected (player s') = nodeConnected (player st)"
    "currentTick (timing s') =
       (case retrievePlayerCurrentTick e of None \<Rightarrow> currentTick (timing st) | Some t \<Rightarrow> t)"
    "issued s' = issued st @ [StopPlayer] @
              (if tickConnected (player st) then [TickDisconnect] else []) @
              (if pauseLowPowerTimer st then [ClearTimeout] else []) @
              [SetTimeout PAUSE_LOW_POWER_MS]"
    using sy by (auto simp add: pauseTrack_def safeSynthCall_def)
  show "returned (pauseTrack e st)"
    "ready (state_of (pauseTrack e st))"
    "\<not> isPlaying (state_of (pauseTrack e st))"
    "timerPending (state_of (pauseTrack e st))"
    "\<not> tickConnected (player (state_of (pauseTrack e st)))"
    "nodeConnected (player (state_of (pauseTrack e st))) = nodeConnected (player st)"
    "currentTick (timing (state_of (pauseTrack e st))) =
       (case retrievePlayerCurrentTick e of None \<Rightarrow> currentTick (timing st) | Some t \<Rightarrow> t)"
    using s'(1-7) by simp_all
  show "new_cmds st (pauseTrack e st) = [StopPlayer] @
              (if tickConnected (player st) then [TickDisconnect] else []) @
              (if pauseLowPowerTimer st then [ClearTimeout] else []) @
              [SetTimeout PAUSE_LOW_POWER_MS]"
    unfolding s'(1) by (rule new_cmds_Returned[OF s'(8)])
qed

lemma playTrack_summary:
  assumes "ready st" "0 \<le> currentIndex st"
  shows "returned (playTrack st)"
    "ready (state_of (playTrack st))"
    "isPlaying (state_of (playTrack st))"
    "\<not> timerPending (state_of (playTrack st))"
    "nodeConnected (player (state_of (playTrack st)))"
    "tickConnected (player (state_of (playTrack st)))"
    "timing (state_of (playTrack st)) = timing st"
    "currentIndex (state_of (playTrack st)) = currentIndex st"
    "new_cmds st (playTrack st) =
       [SeekPlayer (Fin (of_int (max 0 (currentTick (timing st))))), CtxResume, PlayPlayer, CtxResume] @
       (if nodeConnected (player st) then [] else [NodeConnect]) @
       (if tickConnected (player st) then [] else [TickConnect]) @
       (if pauseLowPowerTimer st then [ClearTimeout] else []) @ [CtxResume]"
proof -
  from playTrack_ready[OF assms] obtain s' where s': "playTrack st = Returned s'" "ready s'"
    "isPlaying s'" "\<not> timerPending s'" "nodeConnected (player s')" "tickConnected (player s')"
    "timing s' = timing st" "currentIndex s' = currentIndex st"
    "issued s' = issued st @
       [SeekPlayer (Fin (of_int (max 0 (currentTick (timing st))))), CtxResume, PlayPlayer, CtxResume] @
       (if nodeConnected (player st) then [] else [NodeConnect]) @
       (if tickConnected (player st) then [] else [TickConnect]) @
       (if pauseLowPowerTimer st then [ClearTimeout] else []) @ [CtxResume]"
    by blast
  show "returned (playTrack st)"
    "ready (state_of (playTrack st))"
    "isPlaying (state_of (playTrack st))"
    "\<not> timerPending (state_of (playTrack st))"
    "nodeConnected (player (state_of (playTrack st)))"
    "tickConnected (player (state_of (playTrack st)))"
    "timing (state_of (playTrack st)) = timing st"
    "currentIndex (state_of (playTrack st)) = currentIndex st"
    using s'(1-8) by simp_all
  show "new_cmds st (playTrack st) =
       [SeekPlayer (Fin (of_int (max 0 (currentTick (timing st))))), CtxResume, PlayPlayer, CtxResume] @
       (if nodeConnected (player st) then [] else [NodeConnect]) @
       (if tickConnected (player st) then [] else [TickConnect]) @
       (if pauseLowPowerTimer st then [ClearTimeout] else []) @ [CtxResume]"
    unfolding s'(1) by (rule new_cmds_Returned[OF s'(9)])
qed

lemma pauseLowPowerFired_idle:
  assumes "ready st" "timerPending st" "\<not> isPlaying st"
  shows "\<not> tickConnected (player (pauseLowPowerFired st))"
    "\<not> nodeConnected (player (pauseLowPowerFired st))"
    "last (issued (pauseLowPowerFired st)) = CtxSuspend"
    "\<not> timerPending (pauseLowPowerFired st)"
  using assms
  by (simp_all add: ready_def pauseLowPowerFired_def Let_def call_eq setAudioState_lowPower)

lemma pauseLowPowerFired_playing:
  assumes "timerPending st" "isPlaying st"
  shows "pauseLowPowerFired st = st\<lparr>timerPending := False\<rparr>"
  using assms by (simp add: pauseLowPowerFired_def Let_def)

section \<open>Loading, seeking and the end of a track, summarised\<close>

lemma updateTimeline_totals_tick:
  "currentTick (timing (updateTimeline_totals e st)) = currentTick (timing st)"
  by (simp add: updateTimeline_totals_def on_timing_def updateFromSynth_def Let_def
      split: option.splits)

lemma updateTimeline_resume_tick:
  "currentTick (timing (updateTimeline_resume tick e st)) =
     (case tick of None \<Rightarrow> currentTick (timing st) | Some t \<Rightarrow> t)"
  by (simp add: updateTimeline_resume_def updateTimeline_totals_tick store_tick_def on_timing_def
      split: option.splits)

lemma updateTimeline_resume_mode:
  "isPlaying (updateTimeline_resume tick e st) = isPlaying st"
  by (simp add: updateTimeline_resume_def updateTimeline_totals_def store_tick_def on_timing_def
      split: option.splits)

lemma bit15_resolution_field: "bit (resolution_field buf) 15 \<longleftrightarrow> 32768 \<le> resolution_field buf"
proof -
  have b: "0 \<le> resolution_field buf" "resolution_field buf < 65536"
    using resolution_field_bounds[of buf] by simp_all
  have "bit (resolution_field buf) 15 \<longleftrightarrow> odd (resolution_field buf div 32768)"
    by (simp add: bit_iff_odd)
  also have "\<dots> \<longleftrightarrow> 32768 \<le> resolution_field buf"
  proof
    assume "odd (resolution_field buf div 32768)"
    then have "resolution_field buf div 32768 \<noteq> 0" by auto
    then show "32768 \<le> resolution_field buf" using b by (simp add: div_pos_pos_trivial)
  next
    assume h: "32768 \<le> resolution_field buf"
    then have "resolution_field buf div 32768 = 1" using b by simp
    then show "odd (resolution_field buf div 32768)" by simp
  qed
  finally show ?thesis .
qed

lemma loadTrack_summary:
  assumes r: "ready st" and i: "0 \<le> i" "i < getTrackCount st"
    and f: "fileBytes (playlist st ! nat i) = Some buf"
  shows "returned (loadTrack e i st)"
    "ready (state_of (loadTrack e i st))"
    "currentIndex (state_of (loadTrack e i st)) = i"
    "new_cmds st (loadTrack e i st) = [StopPlayer, StopPlayer, ResetPlayer, AddSMFData buf] @
           (if addSMFDataToPlayer e then [] else [Alert])"
    "ppq (timing (state_of (loadTrack e i st))) =
     (if addSMFDataToPlayer e \<and>
         (retrievePlayerTotalTicks e = None \<or> retrievePlayerMIDITempo e = None)
      then DEFAULT_PPQ
      else ppq (parsePpqFromSmfHeader buf (reset (timing st))))"
proof -
  let ?s = "st\<lparr>currentIndex := i\<rparr>"
  have rs: "ready ?s" using r by (simp add: ready_def)
  then have sy: "synth (player ?s)" by (simp add: ready_def)
  note l = loadTrack_eq[OF i f, of e]
  show "returned (loadTrack e i st)" by (simp add: l)
  show "ready (state_of (loadTrack e i st))" using proceed_ready[OF rs] by (simp add: l)
  show "currentIndex (state_of (loadTrack e i st)) = i"
    using proceed_frame(2)[OF sy, of e buf] by (simp add: l)
  show "new_cmds st (loadTrack e i st) = [StopPlayer, StopPlayer, ResetPlayer, AddSMFData buf] @
           (if addSMFDataToPlayer e then [] else [Alert])"
    using proceed_frame(1)[OF sy, of e buf] by (simp add: l new_cmds_def)
  show "ppq (timing (state_of (loadTrack e i st))) =
     (if addSMFDataToPlayer e \<and>
         (retrievePlayerTotalTicks e = None \<or> retrievePlayerMIDITempo e = None)
      then DEFAULT_PPQ
      else ppq (parsePpqFromSmfHeader buf (reset (timing st))))"
    by (auto simp add: l proceed_ppq[OF sy])
qed

lemma ready_initial: "ready (initial tracks lp)"
  by (simp add: ready_def initial_def initial_player_def)

lemma demo_headers:
  "length riff_smf = 14" "\<not> smf_magic riff_smf"
  "length smpte_smf = 14" "smf_magic smpte_smf" "resolution_field smpte_smf = 59176"
  "length zero_smf = 14" "smf_magic zero_smf" "resolution_field zero_smf = 0"
  "length ppq96_smf = 14" "smf_magic ppq96_smf" "resolution_field ppq96_smf = 96"
  by (simp_all add: riff_smf_def smpte_smf_def zero_smf_def ppq96_smf_def smf_magic_def
      resolution_field_def)










section \<open>The claims on the transport\<close>

text \<open>
  Claim C1 fails on the code. \<open>pauseTrack\<close> stores the tick the engine reports as it
  is: with a track of 960 ticks and an engine that reports tick 1000, the timing state
  ends with \<open>currentTick = 1000\<close> above \<open>totalTicks = 960\<close>. \<open>clampTick\<close>, which no
  function calls, would have brought it back to 960.
\<close>

theorem pauseTrack_stores_unclamped_tick:
  "totalTicks (timing overrun_demo) = 960 \<and> currentTick (timing overrun_demo) = 1000 \<and>
   currentTick (clampTick (timing overrun_demo)) = 960"
  by (simp add: overrun_demo_def paused_at clampTick_def)


text \<open>
  Claim C9, as stated, fails: a refresh of the display sends its query of the current
  tick while playing; the user stops the track, which resets the position to 0; the
  answer 400 then arrives and is stored, in a transport that no longer plays.
\<close>

theorem stale_tick_counterexample:
  "isPlaying inflight_demo \<and>
   snd (updateTimeline_begin (run [(UpdateTimeline, engine_at 100)] playing_demo)) \<and>
   \<not> isPlaying stopped_demo \<and> currentTick (timing stopped_demo) = 0 \<and>
   \<not> isPlaying stale_demo \<and> currentTick (timing stale_demo) = 400"
  using inflight_demo_val(2)
  by (simp add: inflight_demo_val(1) playing_demo_val stale_demo_def stopped_demo_val
      updateTimeline_resume_def updateTimeline_totals_def store_tick_def on_timing_def)


text \<open>
  Claim C9, amended. \<open>updateTimeline\<close> sends its query of the current tick exactly when
  the transport plays and the read is not suppressed, and \<open>pauseTrack\<close> always sends it.
  Once the answer arrives it is stored with no check of the state \<open>s\<close> it arrives in: an
  answer \<open>t\<close> becomes the current tick, the transport mode is not changed, and only a
  failed query (\<open>null\<close>) leaves the current tick as it was.
\<close>

theorem answer_applied_unconditionally:
  "(snd (updateTimeline_begin st) \<longleftrightarrow> isPlaying st \<and> \<not> suppressFirstSynthRead st) \<and>
   currentTick (timing (updateTimeline_resume (Some t) e s)) = t \<and>
   currentTick (timing (updateTimeline_resume None e s)) = currentTick (timing s) \<and>
   isPlaying (updateTimeline_resume (Some t) e s) = isPlaying s \<and>
   (ready s \<longrightarrow>
      returned (pauseTrack_resume (Some t) e s) \<and>
      currentTick (timing (state_of (pauseTrack_resume (Some t) e s))) = t \<and>
      currentTick (timing (state_of (pauseTrack_resume None e s))) = currentTick (timing s))"
proof (intro conjI impI)
  show "snd (updateTimeline_begin st) \<longleftrightarrow> isPlaying st \<and> \<not> suppressFirstSynthRead st"
    by (simp add: updateTimeline_begin_def)
  show "currentTick (timing (updateTimeline_resume (Some t) e s)) = t"
    by (simp add: updateTimeline_resume_tick)
  show "currentTick (timing (updateTimeline_resume None e s)) = currentTick (timing s)"
    by (simp add: updateTimeline_resume_tick)
  show "isPlaying (updateTimeline_resume (Some t) e s) = isPlaying s"
    by (rule updateTimeline_resume_mode)
next
  assume r: "ready s"
  from pauseTrack_resume_ready[OF r, of "Some t" e]
  show "returned (pauseTrack_resume (Some t) e s)"
    "currentTick (timing (state_of (pauseTrack_resume (Some t) e s))) = t"
    by auto
  from pauseTrack_resume_ready[OF r, of None e]
  show "currentTick (timing (state_of (pauseTrack_resume None e s))) = currentTick (timing s)"
    by auto
qed

theorem answer_applied_unconditionally_witness:
  "ready stopped_demo \<and> \<not> isPlaying stopped_demo \<and> currentTick (timing stopped_demo) = 0 \<and>
   currentTick (timing (updateTimeline_resume (Some 400) (engine_at 0) stopped_demo)) = 400 \<and>
   currentTick (timing (state_of (pauseTrack_resume (Some 400) (engine_at 0) stopped_demo))) = 400"
proof -
  have r: "ready stopped_demo" "\<not> isPlaying stopped_demo" "currentTick (timing stopped_demo) = 0"
    by (simp_all add: stopped_demo_val ready_def)
  from answer_applied_unconditionally[where st = playing_demo and s = stopped_demo and t = 400 and e = "engine_at 0"] r
  show ?thesis by simp
qed


text \<open>
  Claim C4, as stated, fails in its ordering: resuming from pause with the timer
  pending, and resuming from low power, the engine's play command is sent before the
  timer is cleared, and before the output node and the heartbeat are reconnected.
\<close>

theorem play_order_counterexample:
  "timerPending paused_demo \<and> \<not> nodeConnected (player lowPower_demo) \<and>
   new_cmds paused_demo (playTrack paused_demo) =
     [SeekPlayer (Fin 400), CtxResume, PlayPlayer, CtxResume, TickConnect, ClearTimeout, CtxResume] \<and>
   new_cmds lowPower_demo (playTrack lowPower_demo) =
     [SeekPlayer (Fin 400), CtxResume, PlayPlayer, CtxResume, NodeConnect, TickConnect,
      ClearTimeout, CtxResume]"
  by (simp add: paused_demo_val lowPower_demo_val new_cmds_def playTrack_def player_seek_def
      call_partial_def play_def call_def seek_def seek_tick_def startUiLoop_def
      cancelPauseLowPower_def safeClearTimeout_def emit_def
      setAudioState.simps seq_def setIdle_def setMainNodeEnabled_def setHeartbeatEnabled_def Let_def)


text \<open>
  Claim C4, amended. From a ready state: \<open>pauseTrack\<close> returns with the transport not
  playing, the heartbeat disconnected, the output left as it was, and its last command
  arms the timer of 30000 ms. When the timer fires and the transport does not play, the
  heartbeat and the output are disconnected and the audio graph is suspended; when it
  fires while playing, nothing but the pending flag changes. \<open>playTrack\<close> with an active
  track returns playing with no timer pending and both nodes connected, and sends
  exactly: the seek, the resume of the graph and the engine's play command (the
  adapter's \<open>play\<close>), then the resume, the reconnection of the output and of the
  heartbeat where they were disconnected, then the clearing of the timer where one was
  set, then a last resume. The graph is resumed before the play command; the output is
  reconnected and the timer cancelled after it.
\<close>

theorem low_power_policy:
  "ready st \<longrightarrow>
     (returned (pauseTrack e st) \<and> \<not> isPlaying (state_of (pauseTrack e st)) \<and>
      timerPending (state_of (pauseTrack e st)) \<and>
      last (new_cmds st (pauseTrack e st)) = SetTimeout 30000 \<and>
      \<not> tickConnected (player (state_of (pauseTrack e st))) \<and>
      nodeConnected (player (state_of (pauseTrack e st))) = nodeConnected (player st)) \<and>
     (timerPending st \<and> \<not> isPlaying st \<longrightarrow>
        \<not> tickConnected (player (pauseLowPowerFired st)) \<and>
        \<not> nodeConnected (player (pauseLowPowerFired st)) \<and>
        last (issued (pauseLowPowerFired st)) = CtxSuspend \<and>
        \<not> timerPending (pauseLowPowerFired st)) \<and>
     (timerPending st \<and> isPlaying st \<longrightarrow> pauseLowPowerFired st = st\<lparr>timerPending := False\<rparr>) \<and>
     (0 \<le> currentIndex st \<longrightarrow>
        returned (playTrack st) \<and> isPlaying (state_of (playTrack st)) \<and>
        \<not> timerPending (state_of (playTrack st)) \<and>
        nodeConnected (player (state_of (playTrack st))) \<and>
        tickConnected (player (state_of (playTrack st))) \<and>
        new_cmds st (playTrack st) =
          [SeekPlayer (Fin (of_int (max 0 (currentTick (timing st))))), CtxResume, PlayPlayer,
           CtxResume] @
          (if nodeConnected (player st) then [] else [NodeConnect]) @
          (if tickConnected (player st) then [] else [TickConnect]) @
          (if pauseLowPowerTimer st then [ClearTimeout] else []) @ [CtxResume])"
proof (intro impI conjI)
  assume r: "ready st"
  note p = pauseTrack_ready[OF r, of e]
  show "returned (pauseTrack e st)" "\<not> isPlaying (state_of (pauseTrack e st))"
    "timerPending (state_of (pauseTrack e st))"
    "\<not> tickConnected (player (state_of (pauseTrack e st)))"
    "nodeConnected (player (state_of (pauseTrack e st))) = nodeConnected (player st)"
    by (rule p)+
  show "last (new_cmds st (pauseTrack e st)) = SetTimeout 30000"
    by (simp add: p(8))
next
  assume "ready st" "timerPending st \<and> \<not> isPlaying st"
  then show "\<not> tickConnected (player (pauseLowPowerFired st))"
    "\<not> nodeConnected (player (pauseLowPowerFired st))"
    "last (issued (pauseLowPowerFired st)) = CtxSuspend"
    "\<not> timerPending (pauseLowPowerFired st)"
    using pauseLowPowerFired_idle[of st] by simp_all
next
  assume "timerPending st \<and> isPlaying st"
  then show "pauseLowPowerFired st = st\<lparr>timerPending := False\<rparr>"
    using pauseLowPowerFired_playing[of st] by simp
next
  assume r: "ready st" and i: "0 \<le> currentIndex st"
  note q = playTrack_summary[OF r i]
  show "returned (playTrack st)" "isPlaying (state_of (playTrack st))"
    "\<not> timerPending (state_of (playTrack st))"
    "nodeConnected (player (state_of (playTrack st)))"
    "tickConnected (player (state_of (playTrack st)))"
    by (rule q)+
  show "new_cmds st (playTrack st) =
          [SeekPlayer (Fin (of_int (max 0 (currentTick (timing st))))), CtxResume, PlayPlayer,
           CtxResume] @
          (if nodeConnected (player st) then [] else [NodeConnect]) @
          (if tickConnected (player st) then [] else [TickConnect]) @
          (if pauseLowPowerTimer st then [ClearTimeout] else []) @ [CtxResume]"
    by (rule q(9))
qed

theorem low_power_policy_witness:
  "ready paused_demo \<and> timerPending paused_demo \<and> \<not> isPlaying paused_demo \<and>
   0 \<le> currentIndex paused_demo \<and>
   \<not> nodeConnected (player (pauseLowPowerFired paused_demo)) \<and>
   last (issued (pauseLowPowerFired paused_demo)) = CtxSuspend \<and>
   isPlaying (state_of (playTrack paused_demo)) \<and>
   \<not> timerPending (state_of (playTrack paused_demo)) \<and>
   new_cmds paused_demo (playTrack paused_demo) =
     [SeekPlayer (Fin 400), CtxResume, PlayPlayer, CtxResume, TickConnect, ClearTimeout, CtxResume]"
proof -
  have r: "ready paused_demo" "timerPending paused_demo" "\<not> isPlaying paused_demo"
    "0 \<le> currentIndex paused_demo" "currentTick (timing paused_demo) = 400"
    "nodeConnected (player paused_demo)" "\<not> tickConnected (player paused_demo)"
    "pauseLowPowerTimer paused_demo"
    by (simp_all add: paused_demo_val ready_def)
  from low_power_policy[of paused_demo "engine_at 0"] r show ?thesis by simp
qed



text \<open>
  Claim C3. \<open>playTrack\<close> does nothing without an active track; with one, from a ready
  state, its first three commands are the seek to the current tick of the timing state,
  the resume of the audio graph and the engine's play command, and it sends no other play
  command. \<open>togglePlayPause\<close>, while nothing plays, is \<open>playTrack\<close> unless no track is
  active and the playlist is not empty; then it first loads the track at index 0 (its
  bytes \<open>buf\<close> are sent to the engine), and then seeks to tick 0 and plays.
\<close>

theorem play_seeks_then_plays:
  "(currentIndex st < 0 \<longrightarrow> playTrack st = Returned st) \<and>
   (ready st \<and> 0 \<le> currentIndex st \<longrightarrow>
      returned (playTrack st) \<and>
      take 3 (new_cmds st (playTrack st)) =
        [SeekPlayer (Fin (of_int (max 0 (currentTick (timing st))))), CtxResume, PlayPlayer] \<and>
      PlayPlayer \<notin> set (drop 3 (new_cmds st (playTrack st)))) \<and>
   (\<not> isPlaying st \<and> \<not> (currentIndex st = - 1 \<and> playlist st \<noteq> []) \<longrightarrow>
      togglePlayPause e st = playTrack st) \<and>
   (ready st \<and> \<not> isPlaying st \<and> currentIndex st = - 1 \<and> playlist st \<noteq> [] \<and>
    fileBytes (playlist st ! 0) = Some buf \<longrightarrow>
      returned (togglePlayPause e st) \<and>
      currentIndex (state_of (togglePlayPause e st)) = 0 \<and>
      isPlaying (state_of (togglePlayPause e st)) \<and>
      new_cmds st (togglePlayPause e st) =
        [StopPlayer, StopPlayer, ResetPlayer, AddSMFData buf] @
        (if addSMFDataToPlayer e then [] else [Alert]) @
        [SeekPlayer (Fin 0), CtxResume, PlayPlayer, CtxResume] @
        (if nodeConnected (player st) then [] else [NodeConnect]) @
        (if tickConnected (player st) then [] else [TickConnect]) @
        (if pauseLowPowerTimer st then [ClearTimeout] else []) @ [CtxResume])"
proof (intro conjI impI)
  assume "currentIndex st < 0"
  then show "playTrack st = Returned st" by (simp add: playTrack_def)
next
  assume "ready st \<and> 0 \<le> currentIndex st"
  then have r: "ready st" and i: "0 \<le> currentIndex st" by simp_all
  note q = playTrack_summary[OF r i]
  show "returned (playTrack st)" by (rule q)
  show "take 3 (new_cmds st (playTrack st)) =
        [SeekPlayer (Fin (of_int (max 0 (currentTick (timing st))))), CtxResume, PlayPlayer]"
    by (simp add: q(9))
  show "PlayPlayer \<notin> set (drop 3 (new_cmds st (playTrack st)))"
    by (simp add: q(9))
next
  assume "\<not> isPlaying st \<and> \<not> (currentIndex st = - 1 \<and> playlist st \<noteq> [])"
  then show "togglePlayPause e st = playTrack st"
    by (auto simp add: togglePlayPause_def getTrackCount_def)
next
  assume a: "ready st \<and> \<not> isPlaying st \<and> currentIndex st = - 1 \<and> playlist st \<noteq> [] \<and>
    fileBytes (playlist st ! 0) = Some buf"
  then have r: "ready st" and np: "\<not> isPlaying st" and ci: "currentIndex st = - 1"
    and ne: "playlist st \<noteq> []" and f: "fileBytes (playlist st ! nat 0) = Some buf" by simp_all
  have c: "0 < getTrackCount st" using ne by (simp add: getTrackCount_def)
  let ?s = "st\<lparr>currentIndex := 0\<rparr>"
  let ?l = "proceed e buf ?s"
  have rs: "ready ?s" using r by (simp add: ready_def)
  then have sy: "synth (player ?s)" by (simp add: ready_def)
  have l: "loadTrack e 0 st = Returned ?l" using loadTrack_eq[OF _ c f, of e] by simp
  have t: "togglePlayPause e st = playTrack ?l"
    using np ci c by (simp add: togglePlayPause_def l)
  note fr = proceed_frame[OF sy, of e buf]
  have rl: "ready ?l" by (rule proceed_ready[OF rs])
  have il: "0 \<le> currentIndex ?l" by (simp add: fr(2))
  have tk: "currentTick (timing ?l) = 0" using proceed_tick[OF sy, of e buf] np by simp
  from playTrack_ready[OF rl il] obtain s' where s': "playTrack ?l = Returned s'"
    "isPlaying s'" "currentIndex s' = currentIndex ?l"
    "issued s' = issued ?l @
       [SeekPlayer (Fin (of_int (max 0 (currentTick (timing ?l))))), CtxResume, PlayPlayer, CtxResume] @
       (if nodeConnected (player ?l) then [] else [NodeConnect]) @
       (if tickConnected (player ?l) then [] else [TickConnect]) @
       (if pauseLowPowerTimer ?l then [ClearTimeout] else []) @ [CtxResume]"
    by blast
  show "returned (togglePlayPause e st)" by (simp add: t s'(1))
  show "currentIndex (state_of (togglePlayPause e st)) = 0" by (simp add: t s'(1) s'(3) fr(2))
  show "isPlaying (state_of (togglePlayPause e st))" by (simp add: t s'(1) s'(2))
  have "issued s' = issued st @ ([StopPlayer, StopPlayer, ResetPlayer, AddSMFData buf] @
        (if addSMFDataToPlayer e then [] else [Alert]) @
        [SeekPlayer (Fin 0), CtxResume, PlayPlayer, CtxResume] @
        (if nodeConnected (player st) then [] else [NodeConnect]) @
        (if tickConnected (player st) then [] else [TickConnect]) @
        (if pauseLowPowerTimer st then [ClearTimeout] else []) @ [CtxResume])"
    unfolding s'(4) tk fr(1) fr(12) fr(13) fr(6) by simp
  then show "new_cmds st (togglePlayPause e st) =
        [StopPlayer, StopPlayer, ResetPlayer, AddSMFData buf] @
        (if addSMFDataToPlayer e then [] else [Alert]) @
        [SeekPlayer (Fin 0), CtxResume, PlayPlayer, CtxResume] @
        (if nodeConnected (player st) then [] else [NodeConnect]) @
        (if tickConnected (player st) then [] else [TickConnect]) @
        (if pauseLowPowerTimer st then [ClearTimeout] else []) @ [CtxResume]"
    unfolding t s'(1) by (rule new_cmds_Returned)
qed

theorem play_seeks_then_plays_witness:
  "currentIndex (initial [] False) < 0 \<and> playTrack (initial [] False) = Returned (initial [] False) \<and>
   togglePlayPause (engine_at 0) (initial [] False) = Returned (initial [] False) \<and>
   ready paused_demo \<and> 0 \<le> currentIndex paused_demo \<and> \<not> isPlaying paused_demo \<and>
   togglePlayPause (engine_at 0) paused_demo = playTrack paused_demo \<and>
   take 3 (new_cmds paused_demo (playTrack paused_demo)) =
     [SeekPlayer (Fin 400), CtxResume, PlayPlayer] \<and>
   ready (initial [demo_track demo_smf] False) \<and>
   currentIndex (initial [demo_track demo_smf] False) = - 1 \<and>
   new_cmds (initial [demo_track demo_smf] False)
      (togglePlayPause (engine_at 0) (initial [demo_track demo_smf] False)) =
     [StopPlayer, StopPlayer, ResetPlayer, AddSMFData demo_smf,
      SeekPlayer (Fin 0), CtxResume, PlayPlayer, CtxResume, CtxResume]"
proof -
  have r: "ready paused_demo" "0 \<le> currentIndex paused_demo" "\<not> isPlaying paused_demo"
    "currentTick (timing paused_demo) = 400" "currentIndex paused_demo = 0"
    by (simp_all add: paused_demo_val ready_def)
  have i: "currentIndex (initial tr False) = - 1" "\<not> isPlaying (initial tr False)"
    "playlist (initial tr False) = tr" "nodeConnected (player (initial tr False))"
    "tickConnected (player (initial tr False))" "\<not> pauseLowPowerTimer (initial tr False)" for tr
    by (simp_all add: initial_def initial_player_def)
  have d: "fileBytes (demo_track demo_smf) = Some demo_smf" by (simp add: demo_track_def)
  have e: "addSMFDataToPlayer (engine_at 0)" by (simp add: engine_at_def)
  from play_seeks_then_plays[of "initial [] False" "engine_at 0" demo_smf]
    play_seeks_then_plays[of paused_demo "engine_at 0" demo_smf]
    play_seeks_then_plays[of "initial [demo_track demo_smf] False" "engine_at 0" demo_smf]
    r i d e ready_initial
  show ?thesis by simp
qed



text \<open>
  Claim C7, as stated, fails in what the getters fall back to: after a query that
  answered 960 ticks, a query that fails makes \<open>getTotalTicks\<close> answer 0, where the last
  known good value is 960.
\<close>

theorem getters_fixed_defaults_counterexample:
  "map retrievePlayerTotalTicks [engine_at 0, engine_down] = [Some 960, None] \<and>
   map (getTotalTicks initial_player) [engine_at 0, engine_down] = [Inr 960, Inr 0] \<and>
   last_known_good 0 (map retrievePlayerTotalTicks [engine_at 0, engine_down]) = [960, 960]"
  by (simp add: getTotalTicks_def try_catch_def synth_query_def initial_player_def engine_at_def
      engine_down_def)

text \<open>
  Claim C7, amended. The three getters of the adapter never throw: each returns the
  answer of the engine when there is a synthesizer and the query succeeds, and otherwise
  a fixed default, 0 for the total ticks, 0 for the current tick and 500000 for the
  tempo.
\<close>

theorem getters_never_throw:
  "getTotalTicks ad e =
     Inr (if synth ad then (case retrievePlayerTotalTicks e of None \<Rightarrow> 0 | Some v \<Rightarrow> v) else 0) \<and>
   getCurrentTick ad e =
     Inr (if synth ad then (case retrievePlayerCurrentTick e of None \<Rightarrow> 0 | Some v \<Rightarrow> v) else 0) \<and>
   getMidiTempoUsPerQuarter ad e =
     Inr (if synth ad then (case retrievePlayerMIDITempo e of None \<Rightarrow> 500000 | Some v \<Rightarrow> v)
          else 500000)"
  by (simp add: getTotalTicks_def getCurrentTick_def getMidiTempoUsPerQuarter_def try_catch_def
      synth_query_def split: option.splits)

text \<open>
  Claim C8. \<open>parsePpqFromSmfHeader\<close> reads the resolution as the big-endian 16-bit
  integer at byte offset 12, from a buffer of at least 14 bytes that opens with \<open>MThd\<close>
  and whose bit 15 of that field is clear; it stores the field when positive and 480
  otherwise, and leaves the timing state alone in every other case. \<open>loadTrack\<close>, from a
  ready state and for a track of the playlist whose bytes \<open>buf\<close> are at hand, returns to
  its caller and sends the bytes to the engine; the resolution ends at the default 480
  when the buffer is short, the magic value differs, bit 15 is set or the field is 0; and
  at the field when the header is well formed and the engine answers its queries.
\<close>

theorem loadTrack_resolution:
  "parsePpqFromSmfHeader buf ts =
     (if 14 \<le> length buf \<and> smf_magic buf \<and> \<not> bit (resolution_field buf) 15
      then ts\<lparr>ppq := (if 0 < resolution_field buf then resolution_field buf else DEFAULT_PPQ)\<rparr>
      else ts) \<and>
   (ready st \<and> 0 \<le> i \<and> i < getTrackCount st \<and> fileBytes (playlist st ! nat i) = Some buf \<longrightarrow>
      returned (loadTrack e i st) \<and>
      take 4 (new_cmds st (loadTrack e i st)) = [StopPlayer, StopPlayer, ResetPlayer, AddSMFData buf] \<and>
      (length buf < 14 \<or> \<not> smf_magic buf \<or> bit (resolution_field buf) 15 \<or>
       resolution_field buf \<le> 0 \<longrightarrow>
         ppq (timing (state_of (loadTrack e i st))) = DEFAULT_PPQ) \<and>
      (14 \<le> length buf \<and> smf_magic buf \<and> \<not> bit (resolution_field buf) 15 \<and>
       0 < resolution_field buf \<and>
       retrievePlayerTotalTicks e \<noteq> None \<and> retrievePlayerMIDITempo e \<noteq> None \<longrightarrow>
         ppq (timing (state_of (loadTrack e i st))) = resolution_field buf))"
proof (intro conjI impI)
  show "parsePpqFromSmfHeader buf ts =
     (if 14 \<le> length buf \<and> smf_magic buf \<and> \<not> bit (resolution_field buf) 15
      then ts\<lparr>ppq := (if 0 < resolution_field buf then resolution_field buf else DEFAULT_PPQ)\<rparr>
      else ts)"
    by (simp add: parsePpq_spec bit15_resolution_field not_le)
next
  assume a: "ready st \<and> 0 \<le> i \<and> i < getTrackCount st \<and> fileBytes (playlist st ! nat i) = Some buf"
  then have r: "ready st" and i: "0 \<le> i" "i < getTrackCount st"
    and f: "fileBytes (playlist st ! nat i) = Some buf" by simp_all
  note s = loadTrack_summary[OF r i f, of e]
  show "returned (loadTrack e i st)" by (rule s)
  show "take 4 (new_cmds st (loadTrack e i st)) = [StopPlayer, StopPlayer, ResetPlayer, AddSMFData buf]"
    by (simp add: s(4))
  {
    assume "length buf < 14 \<or> \<not> smf_magic buf \<or> bit (resolution_field buf) 15 \<or>
       resolution_field buf \<le> 0"
    then show "ppq (timing (state_of (loadTrack e i st))) = DEFAULT_PPQ"
      by (auto simp add: s(5) ppq_parse_reset bit15_resolution_field)
  }
  {
    assume "14 \<le> length buf \<and> smf_magic buf \<and> \<not> bit (resolution_field buf) 15 \<and>
       0 < resolution_field buf \<and>
       retrievePlayerTotalTicks e \<noteq> None \<and> retrievePlayerMIDITempo e \<noteq> None"
    then show "ppq (timing (state_of (loadTrack e i st))) = resolution_field buf"
      by (auto simp add: s(5) ppq_parse_reset bit15_resolution_field)
  }
qed

theorem loadTrack_resolution_witness:
  "ready (initial [demo_track riff_smf] False) \<and> \<not> smf_magic riff_smf \<and>
   returned (loadTrack (engine_at 0) 0 (initial [demo_track riff_smf] False)) \<and>
   ppq (timing (state_of (loadTrack (engine_at 0) 0 (initial [demo_track riff_smf] False)))) = 480 \<and>
   bit (resolution_field smpte_smf) 15 \<and>
   ppq (timing (state_of (loadTrack (engine_at 0) 0 (initial [demo_track smpte_smf] False)))) = 480 \<and>
   resolution_field zero_smf = 0 \<and>
   ppq (timing (state_of (loadTrack (engine_at 0) 0 (initial [demo_track zero_smf] False)))) = 480 \<and>
   smf_magic ppq96_smf \<and>
   ppq (timing (state_of (loadTrack (engine_at 0) 0 (initial [demo_track ppq96_smf] False)))) = 96"
proof -
  have g: "getTrackCount (initial [demo_track b] False) = 1"
    "fileBytes (playlist (initial [demo_track b] False) ! nat 0) = Some b" for b
    by (simp_all add: getTrackCount_def initial_def demo_track_def)
  have e: "retrievePlayerTotalTicks (engine_at 0) \<noteq> None"
    "retrievePlayerMIDITempo (engine_at 0) \<noteq> None"
    by (simp_all add: engine_at_def)
  have b: "bit (resolution_field smpte_smf) 15" "\<not> bit (resolution_field ppq96_smf) 15"
    by (simp_all add: bit15_resolution_field demo_headers)
  from loadTrack_resolution[of riff_smf initial_timing "initial [demo_track riff_smf] False" 0 "engine_at 0"]
    loadTrack_resolution[of smpte_smf initial_timing "initial [demo_track smpte_smf] False" 0 "engine_at 0"]
    loadTrack_resolution[of zero_smf initial_timing "initial [demo_track zero_smf] False" 0 "engine_at 0"]
    loadTrack_resolution[of ppq96_smf initial_timing "initial [demo_track ppq96_smf] False" 0 "engine_at 0"]
    g e b ready_initial demo_headers
  show ?thesis by simp
qed

end
